theory Spec2Isabelle
  imports Complex_Main "HOL-Library.AList"
begin

section \<open>Common notions\<close>

text \<open>
  The exceptions the modelled Python code raises, explicitly (\<open>raise\<close>) or through a
  failed subscript (\<open>IndexError\<close>, \<open>KeyError\<close>) or an unbound local variable.
\<close>

datatype error = TypeError | RuntimeError | ValueError | IndexError | KeyError
  | UnboundLocalError | OperationalError

text \<open>
  A \<open>for\<close> loop over a list whose body may raise: the state is threaded through the
  body, and the first exception ends the loop.
\<close>

fun forEach :: "('a \<Rightarrow> 's \<Rightarrow> error + 's) \<Rightarrow> 'a list \<Rightarrow> 's \<Rightarrow> error + 's" where
  "forEach body [] s = Inr s"
| "forEach body (x # xs) s =
     (case body x s of Inl e \<Rightarrow> Inl e | Inr s' \<Rightarrow> forEach body xs s')"

text \<open>
  Strings are lists of 8-bit characters, read as the code points 0 to 255.
  \<open>isSpace\<close> is Python 3's \<open>str.isspace\<close> on these code points; \<open>strip\<close> is
  \<open>str.strip()\<close> and \<open>startswith\<close> is \<open>str.startswith\<close>.
\<close>

definition isSpace :: "char \<Rightarrow> bool" where
  "isSpace c = (of_char c \<in> set [9, 10, 11, 12, 13, 28, 29, 30, 31, 32, 133, 160 :: nat])"

definition strip :: "string \<Rightarrow> string" where
  "strip s = rev (dropWhile isSpace (rev (dropWhile isSpace s)))"

definition startswith :: "string \<Rightarrow> string \<Rightarrow> bool" where
  "startswith s p = (take (length p) s = p)"

section \<open>runWEP: echoing a configuration file\<close>

text \<open>
  \<open>__readConfigFile\<close> (runWEP.py). The flag \<open>iscomment\<close> starts as \<open>False\<close> and is
  updated with Python's bitwise complement \<open>~\<close>, which on a bool works on the integers
  0 and 1: \<open>~x = -x - 1\<close>. The test \<open>not iscomment\<close> is the test for 0. The file is the
  list of its lines as the file iterator yields them; the output is the list of the
  strings written to \<open>fout\<close> by the loop.
\<close>

definition pyInvert :: "int \<Rightarrow> int" where
  "pyInvert x = - x - 1"

fun readLines :: "int \<Rightarrow> string list \<Rightarrow> string list" where
  "readLines iscomment [] = []"
| "readLines iscomment (raw # rest) =
     (let line = strip raw;
          iscomment' = (if startswith line ''###'' then pyInvert iscomment else iscomment)
      in (if \<not> startswith line ''#'' \<and> iscomment' = 0 \<and> length line > 0
          then [line @ [CHR 0x0A]] else [])
         @ readLines iscomment' rest)"

definition readConfigFile :: "string \<Rightarrow> string \<Rightarrow> string list \<Rightarrow> string list" where
  "readConfigFile configName filename fconfig =
     [[CHR 0x0A], ''---'' @ configName @ '' file: --- '' @ filename @ '' ----------'' @ [CHR 0x0A]]
     @ readLines 0 fconfig"

text \<open>
  The claim's words, independently of the loop: line \<open>i\<close> of the file lies inside a
  block comment when an odd number of delimiter lines (stripped form starting with
  \<open>###\<close>) precede it; a line is echoed when its stripped form does not start with
  \<open>#\<close>, it is outside every block and it is not empty.
\<close>

definition delimitersBefore :: "string list \<Rightarrow> nat \<Rightarrow> nat" where
  "delimitersBefore fconfig i =
     length (filter (\<lambda>l. startswith (strip l) ''###'') (take i fconfig))"

definition echoed :: "string list \<Rightarrow> nat \<Rightarrow> bool" where
  "echoed fconfig i =
     (\<not> startswith (strip (fconfig ! i)) ''#''
      \<and> even (delimitersBefore fconfig i)
      \<and> strip (fconfig ! i) \<noteq> [])"

definition echoSpec :: "string list \<Rightarrow> string list" where
  "echoSpec fconfig =
     map (\<lambda>i. strip (fconfig ! i) @ [CHR 0x0A]) (filter (echoed fconfig) [0..<length fconfig])"

section \<open>WEPController: data model\<close>

text \<open>
  Modelled from the spec: the classes \<open>DefocalImage\<close> and \<open>DonutImage\<close> (module
  \<open>wep.DefocalImage\<close>) are imported by WEPController.py and are not among the source
  files. A defocal image holds an optional intra-focal and an optional extra-focal image;
  a donut image is a defocal image owned by one star identifier, with the pixel position
  of the star. The constructors leave the images they are not given at \<open>None\<close>, and
  \<open>setImg\<close> fills in the role it is given and keeps the other ("creating the entry on
  first sight and filling in the other role later").
\<close>

record 'img DefocalImage =
  intraImg :: "'img option"
  extraImg :: "'img option"

record 'img DonutImage = "'img DefocalImage" +
  starId :: int
  pixelX :: real
  pixelY :: real

definition newDefocalImage :: "'img option \<Rightarrow> 'img option \<Rightarrow> 'img DefocalImage" where
  "newDefocalImage intra extra = \<lparr>intraImg = intra, extraImg = extra\<rparr>"

definition newDonutImage :: "int \<Rightarrow> real \<Rightarrow> real \<Rightarrow> 'img DonutImage" where
  "newDonutImage sid x y =
     \<lparr>intraImg = None, extraImg = None, starId = sid, pixelX = x, pixelY = y\<rparr>"

definition setImg ::
  "'img option \<Rightarrow> 'img option \<Rightarrow> ('img, 'm) DefocalImage_scheme \<Rightarrow> ('img, 'm) DefocalImage_scheme"
where
  "setImg intra extra d =
     d\<lparr>intraImg := (case intra of None \<Rightarrow> intraImg d | Some i \<Rightarrow> Some i),
       extraImg := (case extra of None \<Rightarrow> extraImg d | Some e \<Rightarrow> Some e)\<rparr>"

text \<open>
  The neighboring-star object of one detector, as the source reads it: \<open>SimobjID\<close> is a
  dictionary from each bright (candidate) star to the list of its neighbors, kept as an
  association list in insertion order; \<open>RaDecl\<close> and the six magnitude dictionaries are
  keyed by star identifier. The star object of one detector is read only through the
  length of its \<open>RA\<close> list.
\<close>

record NeighboringStar =
  SimobjID :: "(int \<times> int list) list"
  RaDecl :: "int \<rightharpoonup> real \<times> real"
  LSSTMagU :: "int \<rightharpoonup> real"
  LSSTMagG :: "int \<rightharpoonup> real"
  LSSTMagR :: "int \<rightharpoonup> real"
  LSSTMagI :: "int \<rightharpoonup> real"
  LSSTMagZ :: "int \<rightharpoonup> real"
  LSSTMagY :: "int \<rightharpoonup> real"

record StarData =
  RA :: "real list"

text \<open>
  A Python dictionary that is iterated is an association list; \<open>dict.pop(key)\<close> with no
  default raises \<open>KeyError\<close> when the key is missing.
\<close>

definition pop :: "'k \<Rightarrow> ('k \<times> 'v) list \<Rightarrow> error + ('k \<times> 'v) list" where
  "pop k m = (case map_of m k of None \<Rightarrow> Inl KeyError | Some _ \<Rightarrow> Inr (AList.delete k m))"

section \<open>WEPController: target stars\<close>

text \<open>
  \<open>__analyzeStarMap\<close>: the sensors whose star object has an empty \<open>RA\<close> list are
  collected first, then popped from the three dictionaries in the source's order.
\<close>

type_synonym 'w starMaps =
  "(string \<times> NeighboringStar) list \<times> (string \<times> StarData) list \<times> (string \<times> 'w) list"

definition popSensor :: "string \<Rightarrow> 'w starMaps \<Rightarrow> error + 'w starMaps" where
  "popSensor aKey maps =
     (case maps of (neighborStarMap, starMap, wavefrontSensors) \<Rightarrow>
        (case pop aKey neighborStarMap of
           Inl e \<Rightarrow> Inl e
         | Inr neighborStarMap' \<Rightarrow>
             (case pop aKey starMap of
                Inl e \<Rightarrow> Inl e
              | Inr starMap' \<Rightarrow>
                  (case pop aKey wavefrontSensors of
                     Inl e \<Rightarrow> Inl e
                   | Inr wavefrontSensors' \<Rightarrow>
                       Inr (neighborStarMap', starMap', wavefrontSensors')))))"

definition analyzeStarMap ::
  "(string \<times> NeighboringStar) list \<Rightarrow> (string \<times> StarData) list \<Rightarrow> (string \<times> 'w) list
     \<Rightarrow> error + 'w starMaps"
where
  "analyzeStarMap neighborStarMap starMap wavefrontSensors =
     (let noStarSensorList = map fst (filter (\<lambda>(aKey, aItem). length (RA aItem) = 0) starMap)
      in forEach popSensor noStarSensorList (neighborStarMap, starMap, wavefrontSensors))"

text \<open>
  The source selector (\<open>wep.SourceSelector\<close>) is not among the source files. It is taken
  as a parameter: its database kind \<open>name\<close>, the constant \<open>LocalDb\<close>, its filter, and
  its query \<open>getTargetStar\<close>, whose answer may depend on the calls made on the selector
  and its database before. Those calls are the state of the model: a trace, in which
  the star query (the matching of catalog stars to detectors) is a call like the
  others, recorded with its arguments.
\<close>

datatype selectorCall =
    Connect string
  | CreateTable string string
  | InsertDataByFile string string string nat
  | GetTargetStar "real \<times> real" real "string option" string
  | DeleteTable string
  | Disconnect

record 'w SourceSelector =
  name :: string
  LocalDb :: string
  getFilter :: string
  getTargetStar ::
    "selectorCall list \<Rightarrow> real \<times> real \<Rightarrow> real \<Rightarrow> string option \<Rightarrow> string \<Rightarrow> 'w starMaps"

definition getTargetStarByFile ::
  "'w SourceSelector \<Rightarrow> string \<Rightarrow> string \<Rightarrow> real \<times> real \<Rightarrow> real \<Rightarrow> string option \<Rightarrow> string
     \<Rightarrow> selectorCall list \<Rightarrow> (error + 'w starMaps) \<times> selectorCall list"
where
  "getTargetStarByFile sourSelc dbAdress skyInfoFilePath pointing cameraRotation orientation
       tableName calls =
     (if name sourSelc \<noteq> LocalDb sourSelc then (Inl TypeError, calls)
      else
        let aFilter = getFilter sourSelc;
            calls1 = calls @ [Connect dbAdress];
            calls2 = calls1 @ [CreateTable aFilter tableName];
            calls3 = calls2 @ [InsertDataByFile aFilter tableName skyInfoFilePath 1];
            calls4 = calls3 @ [GetTargetStar pointing cameraRotation orientation tableName]
        in case getTargetStar sourSelc calls3 pointing cameraRotation orientation tableName of
             (neighborStarMap, starMap, wavefrontSensors) \<Rightarrow>
               (case analyzeStarMap neighborStarMap starMap wavefrontSensors of
                  Inl e \<Rightarrow> (Inl e, calls4)
                | Inr maps \<Rightarrow> (Inr maps, calls4 @ [DeleteTable tableName, Disconnect])))"

section \<open>WEPController: sensor names and instrument signature removal\<close>

text \<open>
  \<open>__getSensorInfo\<close> matches the name against the regular expression
  \<^verbatim>\<open>R:(\d,\d) S:(\d,\d)(?:,([A,B]))?$\<close> with \<open>re.match\<close>, which anchors at the start.
  On code points up to 255, \<^verbatim>\<open>\d\<close> is a digit 0 to 9. The class \<^verbatim>\<open>[A,B]\<close> holds three
  characters: A, the comma, and B. Without the MULTILINE flag, \<^verbatim>\<open>$\<close> matches at the end
  of the string and just before a newline that ends the string. The optional group is
  greedy: it is tried first, and skipped when the match fails with it.
\<close>

definition isDigit :: "char \<Rightarrow> bool" where
  "isDigit c = (c \<in> set ''0123456789'')"

definition atDollar :: "string \<Rightarrow> bool" where
  "atDollar s = (s = [] \<or> s = [CHR 0x0A])"

definition matchSensorName :: "string \<Rightarrow> (string \<times> string \<times> string option) option" where
  "matchSensorName s =
     (if 11 \<le> length s \<and> take 2 s = ''R:'' \<and> isDigit (s ! 2) \<and> s ! 3 = CHR '',''
          \<and> isDigit (s ! 4) \<and> take 3 (drop 5 s) = '' S:'' \<and> isDigit (s ! 8)
          \<and> s ! 9 = CHR '','' \<and> isDigit (s ! 10)
      then
        (let raft = take 3 (drop 2 s); sensor = take 3 (drop 8 s); rest = drop 11 s
         in if 2 \<le> length rest \<and> rest ! 0 = CHR '','' \<and> rest ! 1 \<in> set ''A,B''
               \<and> atDollar (drop 2 rest)
            then Some (raft, sensor, Some [rest ! 1])
            else if atDollar rest then Some (raft, sensor, None)
            else None)
      else None)"

definition getSensorInfo :: "string \<Rightarrow> string option \<times> string option \<times> string option" where
  "getSensorInfo sensorName =
     (case matchSensorName sensorName of
        None \<Rightarrow> (None, None, None)
      | Some (raft, sensor, channel) \<Rightarrow> (Some raft, Some sensor, channel))"

text \<open>
  \<open>doISR\<close>. The ISR wrapper is not among the source files; the state is the trace of
  the calls it receives. The source passes \<open>channel=None\<close> to the wrapper.
\<close>

datatype isrCall =
  IsrDoISR int int "string option" "string option" "string option" string string

definition doISR ::
  "int \<Rightarrow> string \<Rightarrow> int \<Rightarrow> string \<Rightarrow> string \<Rightarrow> isrCall list \<Rightarrow> (error + unit) \<times> isrCall list"
where
  "doISR visit sensorName snap fakeDatasetType outputDatasetType calls =
     (case getSensorInfo sensorName of
        (raft, sensor, channel) \<Rightarrow>
          (if raft \<noteq> None
           then (Inr (), calls @ [IsrDoISR visit snap raft sensor None fakeDatasetType
                                    outputDatasetType])
           else (Inl RuntimeError, calls)))"

text \<open>
  The canonical detector-name form in the specification's words:
  \<open>R:<digit>,<digit> S:<digit>,<digit>\<close>, optionally followed by \<open>,A\<close> or \<open>,B\<close>.
\<close>

definition canonicalName :: "string \<Rightarrow> bool" where
  "canonicalName s =
     (length (take 11 s) = 11 \<and> take 2 s = ''R:'' \<and> isDigit (s ! 2) \<and> s ! 3 = CHR '',''
      \<and> isDigit (s ! 4) \<and> take 3 (drop 5 s) = '' S:'' \<and> isDigit (s ! 8)
      \<and> s ! 9 = CHR '','' \<and> isDigit (s ! 10)
      \<and> drop 11 s \<in> set ['''', '',A'', '',B''])"

section \<open>WEPController: post-ISR defocal images\<close>

text \<open>
  \<open>__searchFileName\<close>: the first file name that \<open>re.match\<close> accepts for the pattern built
  from the abbreviated sensor name and the snap; the result is the matched text
  \<open>m.group()\<close>. The regular-expression match on that pattern is the parameter
  \<open>reMatch matchName snap fileName\<close>.
\<close>

fun searchFileName ::
  "(string \<Rightarrow> int \<Rightarrow> string \<Rightarrow> string option) \<Rightarrow> string list \<Rightarrow> string \<Rightarrow> int \<Rightarrow> string option"
where
  "searchFileName reMatch [] matchName snap = None"
| "searchFileName reMatch (fileName # rest) matchName snap =
     (case reMatch matchName snap fileName of
        Some matched \<Rightarrow> Some matched
      | None \<Rightarrow> searchFileName reMatch rest matchName snap)"

text \<open>
  What \<open>getPostISRDefocalImgMap\<close> reads from outside the source files: the listing of
  the raw-data directory (\<open>__getRawFileList\<close> over \<open>os.listdir\<close>), the data butler
  composed with \<open>getImageData\<close>, \<open>abbrevDectectorName\<close> of \<open>wep.SourceProcessor\<close>,
  the match of \<open>__searchFileName\<close>, and \<open>fits.getdata\<close> on the path joined from the
  raw-data path, the directory and the file name.
\<close>

record 'img ImageSources =
  pathOfRawData :: string
  getRawFileList :: "string \<Rightarrow> string list"
  butlerGet :: "int \<Rightarrow> int \<Rightarrow> string option \<Rightarrow> string option \<Rightarrow> 'img"
  abbrevName :: "string \<Rightarrow> string"
  fileMatch :: "string \<Rightarrow> int \<Rightarrow> string \<Rightarrow> string option"
  fitsGetdata :: "string \<Rightarrow> string \<Rightarrow> string \<Rightarrow> 'img"

text \<open>
  The body of the loop over \<open>sensorNameList\<close>. With \<open>obsIdList\<close> given, the two
  images come from the butler (\<open>obsIdList[ii]\<close> for \<open>ii\<close> in 0, 1 raises \<open>IndexError\<close> on
  a shorter list). With \<open>wfsDir\<close> given and a file matched, the entry is replaced by a
  fresh \<open>DefocalImage()\<close> whose role is chosen by the channel.
\<close>

definition sensorImages ::
  "'img ImageSources \<Rightarrow> int list option \<Rightarrow> string option \<Rightarrow> int \<Rightarrow> string
     \<Rightarrow> (string \<rightharpoonup> 'img DefocalImage) \<Rightarrow> error + (string \<rightharpoonup> 'img DefocalImage)"
where
  "sensorImages src obsIdList wfsDir snap sensorName wfsImgMap =
     (case getSensorInfo sensorName of
        (raft, sensor, channel) \<Rightarrow>
          (case (case obsIdList of
                   None \<Rightarrow> Inr wfsImgMap
                 | Some ids \<Rightarrow>
                     if length ids < 2 then Inl IndexError
                     else Inr (wfsImgMap(sensorName \<mapsto>
                            newDefocalImage (Some (butlerGet src (ids ! 0) snap raft sensor))
                                            (Some (butlerGet src (ids ! 1) snap raft sensor)))))
           of
             Inl e \<Rightarrow> Inl e
           | Inr wfsImgMap1 \<Rightarrow>
               (case wfsDir of
                  None \<Rightarrow> Inr wfsImgMap1
                | Some dir \<Rightarrow>
                    (case searchFileName (fileMatch src) (getRawFileList src dir)
                            (abbrevName src sensorName) snap of
                       None \<Rightarrow> Inr wfsImgMap1
                     | Some matchFileName \<Rightarrow>
                         (let wfsImg = fitsGetdata src (pathOfRawData src) dir matchFileName;
                              fresh = newDefocalImage None None
                          in Inr (wfsImgMap1(sensorName \<mapsto>
                                (if channel = Some ''A'' then setImg (Some wfsImg) None fresh
                                 else if channel = Some ''B'' then setImg None (Some wfsImg) fresh
                                 else fresh))))))))"

definition getPostISRDefocalImgMap ::
  "'img ImageSources \<Rightarrow> string list \<Rightarrow> int list option \<Rightarrow> string option \<Rightarrow> int
     \<Rightarrow> error + (string \<rightharpoonup> 'img DefocalImage)"
where
  "getPostISRDefocalImgMap src sensorNameList obsIdList wfsDir snap =
     forEach (sensorImages src obsIdList wfsDir snap) sensorNameList Map.empty"

section \<open>WEPController: the donut map\<close>

text \<open>
  \<open>__searchDonutListId\<close>: the index of the first donut image with the star identifier,
  or -1. The loop over \<open>range(len(donutList))\<close> with its \<open>break\<close> is the recursion over
  the list of indices. Star identifiers are integers, so \<open>int(starId)\<close> is \<open>starId\<close>.
\<close>

fun searchIndices :: "nat list \<Rightarrow> ('img, 'm) DonutImage_scheme list \<Rightarrow> int \<Rightarrow> int" where
  "searchIndices [] donutList sid = -1"
| "searchIndices (ii # rest) donutList sid =
     (if starId (donutList ! ii) = sid then int ii else searchIndices rest donutList sid)"

definition searchDonutListId :: "('img, 'm) DonutImage_scheme list \<Rightarrow> int \<Rightarrow> int" where
  "searchDonutListId donutList sid = searchIndices [0..<length donutList] donutList sid"

text \<open>
  An update of the list element at a Python index: a negative index counts from the
  end, and an index out of range raises \<open>IndexError\<close>.
\<close>

definition updateAt :: "int \<Rightarrow> ('a \<Rightarrow> 'a) \<Rightarrow> 'a list \<Rightarrow> error + 'a list" where
  "updateAt i f xs =
     (let n = int (length xs); k = (if i < 0 then i + n else i)
      in if 0 \<le> k \<and> k < n then Inr (xs[nat k := f (xs ! nat k)]) else Inl IndexError)"

text \<open>
  The source processor (\<open>wep.SourceProcessor\<close>) is not among the source files; its three
  operations are parameters. \<open>getSingleTargetImage\<close> also reads the sensor name the
  processor was configured with at the top of the sensor loop; it returns the cutout, the
  positions of the stars in it, their magnitude ratios, and the offset of the cutout.
  \<open>doDeblending\<close> returns an image (possibly \<open>None\<close>) and a center.
\<close>

record 'img SingleTarget =
  singleSciNeiImg :: 'img
  allStarPosX :: "real list"
  allStarPosY :: "real list"
  magRatio :: "real list"
  offsetX :: real
  offsetY :: real

record 'img SourceProcessor =
  abbrevDectectorName :: "string \<Rightarrow> string"
  getSingleTargetImage ::
    "string \<Rightarrow> 'img \<Rightarrow> NeighboringStar \<Rightarrow> nat \<Rightarrow> string \<Rightarrow> 'img SingleTarget"
  doDeblending :: "'img \<Rightarrow> real list \<Rightarrow> real list \<Rightarrow> real list \<Rightarrow> 'img option \<times> real \<times> real"

text \<open>
  Lines 429 to 439 of \<open>getDonutMap\<close>: the choice between the raw cutout, the deblended
  image, and no image. The result \<open>None\<close> stands for \<open>imgDeblend is None\<close>;
  \<open>allStarPosX[0]\<close> raises \<open>IndexError\<close> on an empty list.
\<close>

definition deblendOrPass ::
  "'img SourceProcessor \<Rightarrow> bool \<Rightarrow> 'img SingleTarget \<Rightarrow> error + ('img \<times> real \<times> real) option"
where
  "deblendOrPass sourProc doDeb t =
     (if (length (magRatio t) = 1 \<and> doDeb) \<or> \<not> doDeb then
        (case allStarPosX t of
           [] \<Rightarrow> Inl IndexError
         | realcx # _ \<Rightarrow>
             (case allStarPosY t of
                [] \<Rightarrow> Inl IndexError
              | realcy # _ \<Rightarrow> Inr (Some (singleSciNeiImg t, realcx, realcy))))
      else if length (magRatio t) = 2 \<and> doDeb then
        (case doDeblending sourProc (singleSciNeiImg t) (allStarPosX t) (allStarPosY t)
                (magRatio t) of
           (None, realcx, realcy) \<Rightarrow> Inr None
         | (Some imgDeblend, realcx, realcy) \<Rightarrow> Inr (Some (imgDeblend, realcx, realcy)))
      else Inr None)"

text \<open>
  Lines 444 to 467: the image goes into the donut image of its star on the sensor. The
  list of the sensor is created when missing, the donut image is appended when the search
  finds none, and the role \<open>jj\<close> (0 intra-focal, 1 extra-focal) picks the field.
\<close>

type_synonym 'img donutMap = "string \<rightharpoonup> 'img DonutImage list"

definition setRole ::
  "nat \<Rightarrow> 'img \<Rightarrow> ('img, 'm) DefocalImage_scheme \<Rightarrow> ('img, 'm) DefocalImage_scheme"
where
  "setRole jj imgDeblend =
     (if jj = 0 then setImg (Some imgDeblend) None
      else if jj = 1 then setImg None (Some imgDeblend)
      else id)"

definition putDonut ::
  "string \<Rightarrow> int \<Rightarrow> nat \<Rightarrow> 'img \<Rightarrow> real \<Rightarrow> real \<Rightarrow> 'img donutMap \<Rightarrow> error + 'img donutMap"
where
  "putDonut sensorName sid jj imgDeblend x y donutMap =
     (let donutList0 = (case donutMap sensorName of None \<Rightarrow> [] | Some l \<Rightarrow> l);
          donutIndex0 = searchDonutListId donutList0 sid;
          donutList = (if donutIndex0 < 0 then donutList0 @ [newDonutImage sid x y]
                       else donutList0);
          donutIndex = (if donutIndex0 < 0 then searchDonutListId donutList sid
                        else donutIndex0)
      in case updateAt donutIndex (setRole jj imgDeblend) donutList of
           Inl e \<Rightarrow> Inl e
         | Inr donutList' \<Rightarrow> Inr (donutMap(sensorName \<mapsto> donutList')))"

text \<open>The body of the loop over the two focal roles, for star \<open>ii\<close> of a sensor.\<close>

definition donutOfRole ::
  "'img SourceProcessor \<Rightarrow> NeighboringStar \<Rightarrow> string \<Rightarrow> bool \<Rightarrow> string \<Rightarrow> int list
     \<Rightarrow> 'img option list \<Rightarrow> nat \<Rightarrow> nat \<Rightarrow> 'img donutMap \<Rightarrow> error + 'img donutMap"
where
  "donutOfRole sourProc nbr aFilter doDeb sensorName simobjIdList defocalImgList ii jj donutMap =
     (case defocalImgList ! jj of
        None \<Rightarrow> Inr donutMap
      | Some ccdImg \<Rightarrow>
          (let t = getSingleTargetImage sourProc (abbrevDectectorName sourProc sensorName)
                     ccdImg nbr ii aFilter
           in case deblendOrPass sourProc doDeb t of
                Inl e \<Rightarrow> Inl e
              | Inr None \<Rightarrow> Inr donutMap
              | Inr (Some (imgDeblend, realcx, realcy)) \<Rightarrow>
                  putDonut sensorName (simobjIdList ! ii) jj imgDeblend
                    (realcx + offsetX t) (realcy + offsetY t) donutMap))"

text \<open>The body of the loop over the stars of a sensor: the two focal roles in turn.\<close>

abbreviation (input) starLoop ::
  "'img SourceProcessor \<Rightarrow> NeighboringStar \<Rightarrow> string \<Rightarrow> bool \<Rightarrow> string \<Rightarrow> int list
     \<Rightarrow> 'img option list \<Rightarrow> nat \<Rightarrow> 'img donutMap \<Rightarrow> error + 'img donutMap"
where
  "starLoop sourProc nbr aFilter doDeb sensorName ids imgs \<equiv>
     (\<lambda>ii. forEach (donutOfRole sourProc nbr aFilter doDeb sensorName ids imgs ii) [0..<2])"

text \<open>
  The body of the loop over the sensors of \<open>wfsImgMap\<close>, and \<open>getDonutMap\<close>. The
  subscript \<open>neighborStarMap[sensorName]\<close> raises \<open>KeyError\<close> on a sensor the
  neighboring-star map does not have.
\<close>

definition donutsOfSensor ::
  "'img SourceProcessor \<Rightarrow> (string \<rightharpoonup> NeighboringStar) \<Rightarrow> (string \<times> 'img DefocalImage) list
     \<Rightarrow> string \<Rightarrow> bool \<Rightarrow> string \<Rightarrow> 'img donutMap \<Rightarrow> error + 'img donutMap"
where
  "donutsOfSensor sourProc neighborStarMap wfsImgMap aFilter doDeb sensorName donutMap =
     (case neighborStarMap sensorName of
        None \<Rightarrow> Inl KeyError
      | Some nbr \<Rightarrow>
          (case map_of wfsImgMap sensorName of
             None \<Rightarrow> Inl KeyError
           | Some defocal \<Rightarrow>
               (let simobjIdList = map fst (SimobjID nbr);
                    defocalImgList = [intraImg defocal, extraImg defocal]
                in forEach
                     (starLoop sourProc nbr aFilter doDeb sensorName simobjIdList
                        defocalImgList)
                     [0..<length simobjIdList] donutMap)))"

definition getDonutMap ::
  "'img SourceProcessor \<Rightarrow> (string \<rightharpoonup> NeighboringStar) \<Rightarrow> (string \<times> 'img DefocalImage) list
     \<Rightarrow> string \<Rightarrow> bool \<Rightarrow> error + 'img donutMap"
where
  "getDonutMap sourProc neighborStarMap wfsImgMap aFilter doDeb =
     forEach (donutsOfSensor sourProc neighborStarMap wfsImgMap aFilter doDeb)
       (map fst wfsImgMap) Map.empty"

text \<open>
  Four notions used to state what the donut map holds. \<open>entryOf\<close> is the donut image
  of a star on a sensor: the first of the sensor's list with the star identifier.
  \<open>cutoutOf\<close> is the image that lines 421 to 439 produce for star \<open>ii\<close> from one
  defocal image of the sensor: none when the defocal image is \<open>None\<close> or when
  \<open>imgDeblend\<close> stays \<open>None\<close>; \<open>centerOf\<close> is the position that line 452
  would give a donut image created for that image, \<open>realcx + offsetX\<close> and
  \<open>realcy + offsetY\<close>. \<open>upsertDonut\<close> is the list operation of lines 447
  to 467 as a recursion over the list: the first donut image of the star is updated, and a
  new one is appended and updated when there is none.
\<close>

definition entryOf :: "'img donutMap \<Rightarrow> string \<Rightarrow> int \<Rightarrow> 'img DonutImage option" where
  "entryOf donutMap sensorName sid =
     (case donutMap sensorName of
        None \<Rightarrow> None
      | Some donutList \<Rightarrow> find (\<lambda>d. starId d = sid) donutList)"

definition cutoutOf ::
  "'img SourceProcessor \<Rightarrow> NeighboringStar \<Rightarrow> string \<Rightarrow> bool \<Rightarrow> string \<Rightarrow> 'img option \<Rightarrow> nat
     \<Rightarrow> 'img option"
where
  "cutoutOf sourProc nbr aFilter doDeb sensorName defocalImg ii =
     (case defocalImg of
        None \<Rightarrow> None
      | Some ccdImg \<Rightarrow>
          (case deblendOrPass sourProc doDeb
                  (getSingleTargetImage sourProc (abbrevDectectorName sourProc sensorName)
                     ccdImg nbr ii aFilter) of
             Inr (Some (imgDeblend, realcx, realcy)) \<Rightarrow> Some imgDeblend
           | _ \<Rightarrow> None))"

definition centerOf ::
  "'img SourceProcessor \<Rightarrow> NeighboringStar \<Rightarrow> string \<Rightarrow> bool \<Rightarrow> string \<Rightarrow> 'img option \<Rightarrow> nat
     \<Rightarrow> (real \<times> real) option"
where
  "centerOf sourProc nbr aFilter doDeb sensorName defocalImg ii =
     (case defocalImg of
        None \<Rightarrow> None
      | Some ccdImg \<Rightarrow>
          (let t = getSingleTargetImage sourProc (abbrevDectectorName sourProc sensorName)
                     ccdImg nbr ii aFilter
           in case deblendOrPass sourProc doDeb t of
                Inr (Some (imgDeblend, realcx, realcy)) \<Rightarrow>
                  Some (realcx + offsetX t, realcy + offsetY t)
              | _ \<Rightarrow> None))"

fun upsertDonut ::
  "('img DonutImage \<Rightarrow> 'img DonutImage) \<Rightarrow> 'img DonutImage \<Rightarrow> int \<Rightarrow> 'img DonutImage list
     \<Rightarrow> 'img DonutImage list"
where
  "upsertDonut f new sid [] = [f new]"
| "upsertDonut f new sid (d # ds) =
     (if starId d = sid then f d # ds else d # upsertDonut f new sid ds)"

text \<open>
  A donut map in which no detector has two donut images of the same star.
\<close>

definition oneEntryPerStar :: "'img donutMap \<Rightarrow> bool" where
  "oneEntryPerStar donutMap \<longleftrightarrow>
     (\<forall>sensorName donutList. donutMap sensorName = Some donutList \<longrightarrow>
        distinct (map starId donutList))"

section \<open>LocalDatabase\<close>

text \<open>
  \<open>str.upper()\<close> on the letters a to z; the camera filter is one of u, g, r, i, z, y.
  The catalog table of a filter is \<open>BrightStarCatalog\<close> followed by the filter in upper
  case.
\<close>

definition upperChar :: "char \<Rightarrow> char" where
  "upperChar c =
     (let n = (of_char c :: nat) in if 97 \<le> n \<and> n \<le> 122 then char_of (n - 32) else c)"

definition upper :: "string \<Rightarrow> string" where
  "upper s = map upperChar s"

definition catalogTable :: "string \<Rightarrow> string" where
  "catalogTable cameraFilter = ''BrightStarCatalog'' @ upper cameraFilter"

subsection \<open>updateData\<close>

text \<open>
  The state is what the cursor and the connection have been asked to do: each
  \<open>cursor.execute(command, parameters)\<close> and each \<open>connection.commit()\<close>, in order.
  \<open>checkItems\<close> is the first loop of \<open>updateData\<close>, \<open>updateRows\<close> the second, over
  \<open>range(len(listID))\<close>; the subscripts \<open>listOfItemToChange[ii]\<close> and
  \<open>listOfNewValue[ii]\<close> raise \<open>IndexError\<close> on a shorter list. \<open>pyStr\<close> is \<open>str\<close> on
  the new values.
\<close>

datatype cursorCall = Execute string "int list" | Commit

definition updatableItems :: "string list" where
  "updatableItems = [''simobjid'', ''ra'', ''decl'', ''mag'', ''bright_star'']"

fun checkItems :: "string list \<Rightarrow> error + unit" where
  "checkItems [] = Inr ()"
| "checkItems (item # rest) =
     (if item \<notin> set updatableItems then Inl ValueError else checkItems rest)"

definition updateCommand :: "string \<Rightarrow> string \<Rightarrow> string \<Rightarrow> string" where
  "updateCommand cameraFilter itemToChange newValue =
     ''UPDATE '' @ catalogTable cameraFilter @ '' SET '' @ itemToChange @ ''='' @ newValue
       @ '' WHERE id=?''"

fun updateRows ::
  "('v \<Rightarrow> string) \<Rightarrow> string \<Rightarrow> int list \<Rightarrow> string list \<Rightarrow> 'v list \<Rightarrow> nat list
     \<Rightarrow> cursorCall list \<Rightarrow> (error + unit) \<times> cursorCall list"
where
  "updateRows pyStr cameraFilter listID listOfItemToChange listOfNewValue [] calls =
     (Inr (), calls)"
| "updateRows pyStr cameraFilter listID listOfItemToChange listOfNewValue (ii # rest) calls =
     (if length listOfItemToChange \<le> ii then (Inl IndexError, calls)
      else
        let item = listOfItemToChange ! ii;
            itemToChange = (if item = ''mag'' then cameraFilter @ item else item)
        in if length listOfNewValue \<le> ii then (Inl IndexError, calls)
           else updateRows pyStr cameraFilter listID listOfItemToChange listOfNewValue rest
                  (calls @ [Execute (updateCommand cameraFilter itemToChange
                                       (pyStr (listOfNewValue ! ii)))
                              [listID ! ii]]))"

definition updateData ::
  "('v \<Rightarrow> string) \<Rightarrow> string \<Rightarrow> int list \<Rightarrow> string list \<Rightarrow> 'v list \<Rightarrow> cursorCall list
     \<Rightarrow> (error + unit) \<times> cursorCall list"
where
  "updateData pyStr cameraFilter listID listOfItemToChange listOfNewValue calls =
     (case checkItems listOfItemToChange of
        Inl e \<Rightarrow> (Inl e, calls)
      | Inr _ \<Rightarrow>
          (case updateRows pyStr cameraFilter listID listOfItemToChange listOfNewValue
                  [0..<length listID] calls of
             (Inl e, calls') \<Rightarrow> (Inl e, calls')
           | (Inr _, calls') \<Rightarrow> (Inr (), calls' @ [Commit])))"

text \<open>
  The column an item names in the \<open>UPDATE\<close> statement, in the claim's words: \<open>mag\<close>
  is the magnitude column of the filter, every other item is its own column.
\<close>

definition columnOf :: "string \<Rightarrow> string \<Rightarrow> string" where
  "columnOf cameraFilter item = (if item = ''mag'' then cameraFilter @ ''mag'' else item)"

subsection \<open>searchRaDecl and insertData\<close>

text \<open>
  Here the state is the content of the catalog tables, by table name; a statement on a
  table that does not exist raises \<open>sqlite3.OperationalError\<close>. A row has the columns of
  the \<open>INSERT\<close> statement and the key \<open>id\<close>, which the database assigns (the table is
  created outside the source files; the key is taken as one more than the largest in
  use). Coordinates and magnitudes are real numbers.

  \<open>searchRaDecl\<close> writes the two coordinates into the text of the query with the
  conversion \<^verbatim>\<open>%f\<close>, which prints six digits after the decimal point; the database
  compares the stored value with the number that text denotes. \<open>formatF\<close> is that
  number (rounding to the nearest millionth).
\<close>

record Row =
  rowId :: int
  simobjid :: int
  ra :: real
  decl :: real
  mag :: real
  bright_star :: bool

type_synonym catalog = "string \<rightharpoonup> Row list"

definition formatF :: "real \<Rightarrow> real" where
  "formatF x = of_int (round (x * 1000000)) / 1000000"

definition searchRaDecl :: "catalog \<Rightarrow> string \<Rightarrow> real \<Rightarrow> real \<Rightarrow> error + int list" where
  "searchRaDecl db cameraFilter raQ declQ =
     (case db (catalogTable cameraFilter) of
        None \<Rightarrow> Inl OperationalError
      | Some rows \<Rightarrow>
          Inr (map rowId (filter (\<lambda>r. ra r = formatF raQ \<and> decl r = formatF declQ) rows)))"

text \<open>The first loop of \<open>insertData\<close>: the bright stars found in the table.\<close>

definition checkExisting ::
  "catalog \<Rightarrow> string \<Rightarrow> NeighboringStar \<Rightarrow> int \<Rightarrow> int list \<Rightarrow> error + int list"
where
  "checkExisting db cameraFilter nbr brightStar existIdList =
     (case RaDecl nbr brightStar of
        None \<Rightarrow> Inl KeyError
      | Some raDec \<Rightarrow>
          (case searchRaDecl db cameraFilter (fst raDec) (snd raDec) of
             Inl e \<Rightarrow> Inl e
           | Inr found \<Rightarrow> Inr (if found \<noteq> [] then existIdList @ [brightStar] else existIdList)))"

text \<open>
  The second loop: the bright stars that remain, and with each its neighbors not
  collected yet. The state is the pair of \<open>remainIdList\<close> and \<open>allStarList\<close>.
\<close>

fun addNeighbors :: "int list \<Rightarrow> int list \<Rightarrow> int list" where
  "addNeighbors [] allStarList = allStarList"
| "addNeighbors (starID # rest) allStarList =
     addNeighbors rest (if starID \<notin> set allStarList then allStarList @ [starID] else allStarList)"

fun collectStars ::
  "int list \<Rightarrow> (int \<times> int list) list \<Rightarrow> int list \<times> int list \<Rightarrow> int list \<times> int list"
where
  "collectStars existIdList [] collected = collected"
| "collectStars existIdList ((sid, neighbors) # rest) (remainIdList, allStarList) =
     collectStars existIdList rest
       (if sid \<notin> set existIdList
        then (remainIdList @ [sid], addNeighbors neighbors (allStarList @ [sid]))
        else (remainIdList, allStarList))"

text \<open>
  The third loop: one \<open>INSERT\<close> per collected star. The magnitude is read from the
  dictionary of the filter; with a filter that is none of the six, \<open>mag\<close> is never
  assigned and its first use raises \<open>UnboundLocalError\<close>. The filter constants of the
  base class (\<open>BrightStarDatabase\<close>, not among the source files) are the six letters.
\<close>

definition magnitudeOf :: "string \<Rightarrow> NeighboringStar \<Rightarrow> int \<Rightarrow> error + real" where
  "magnitudeOf cameraFilter nbr simobjID =
     (let look = (\<lambda>d. case d simobjID of None \<Rightarrow> Inl KeyError | Some m \<Rightarrow> Inr m)
      in if cameraFilter = ''u'' then look (LSSTMagU nbr)
         else if cameraFilter = ''g'' then look (LSSTMagG nbr)
         else if cameraFilter = ''r'' then look (LSSTMagR nbr)
         else if cameraFilter = ''i'' then look (LSSTMagI nbr)
         else if cameraFilter = ''z'' then look (LSSTMagZ nbr)
         else if cameraFilter = ''y'' then look (LSSTMagY nbr)
         else Inl UnboundLocalError)"

definition nextRowId :: "Row list \<Rightarrow> int" where
  "nextRowId rows = fold max (map rowId rows) 0 + 1"

fun insertRows ::
  "string \<Rightarrow> NeighboringStar \<Rightarrow> int list \<Rightarrow> int list \<Rightarrow> catalog \<Rightarrow> (error + unit) \<times> catalog"
where
  "insertRows cameraFilter nbr remainIdList [] db = (Inr (), db)"
| "insertRows cameraFilter nbr remainIdList (simobjID # rest) db =
     (case RaDecl nbr simobjID of
        None \<Rightarrow> (Inl KeyError, db)
      | Some raDec \<Rightarrow>
          (case magnitudeOf cameraFilter nbr simobjID of
             Inl e \<Rightarrow> (Inl e, db)
           | Inr m \<Rightarrow>
               (case db (catalogTable cameraFilter) of
                  None \<Rightarrow> (Inl OperationalError, db)
                | Some rows \<Rightarrow>
                    insertRows cameraFilter nbr remainIdList rest
                      (db(catalogTable cameraFilter \<mapsto>
                         rows @ [\<lparr>rowId = nextRowId rows, simobjid = simobjID,
                                  ra = fst raDec, decl = snd raDec, mag = m,
                                  bright_star = (simobjID \<in> set remainIdList)\<rparr>])))))"

definition insertData :: "string \<Rightarrow> NeighboringStar \<Rightarrow> catalog \<Rightarrow> (error + unit) \<times> catalog" where
  "insertData cameraFilter nbr db =
     (case forEach (checkExisting db cameraFilter nbr) (map fst (SimobjID nbr)) [] of
        Inl e \<Rightarrow> (Inl e, db)
      | Inr existIdList \<Rightarrow>
          (case collectStars existIdList (SimobjID nbr) ([], []) of
             (remainIdList, allStarList) \<Rightarrow>
               insertRows cameraFilter nbr remainIdList allStarList db))"

text \<open>The rows of the catalog table of a filter (none when the table does not exist).\<close>

definition rowsOf :: "catalog \<Rightarrow> string \<Rightarrow> Row list" where
  "rowsOf db cameraFilter = (case db (catalogTable cameraFilter) of None \<Rightarrow> [] | Some rows \<Rightarrow> rows)"

section \<open>Concrete inputs\<close>

text \<open>
  A definition file with a comment line, a block comment between two delimiter lines,
  an empty line, and two configuration pairs.
\<close>

definition exampleConfig :: "string list" where
  "exampleConfig =
     ['' # lsst instrument'', ''###'', ''Obscuration 0.5'', '' ### '',
      ''Obscuration 0.61  '', '''', ''#x'', ''Pixel_size 10.0e-6'']"

text \<open>
  Two detectors as the star query may answer: the first with one candidate star, the
  second with none. The selector is of the local-database kind when its \<open>name\<close> is
  \<open>LocalDb\<close>.
\<close>

definition exampleStars :: NeighboringStar where
  "exampleStars =
     \<lparr>SimobjID = [(523572575, [])], RaDecl = [523572575 \<mapsto> (1 / 10, 21 / 10)],
      LSSTMagU = Map.empty, LSSTMagG = [523572575 \<mapsto> 2], LSSTMagR = Map.empty,
      LSSTMagI = Map.empty, LSSTMagZ = Map.empty, LSSTMagY = Map.empty\<rparr>"

definition noStars :: NeighboringStar where
  "noStars =
     \<lparr>SimobjID = [], RaDecl = Map.empty,
      LSSTMagU = Map.empty, LSSTMagG = Map.empty, LSSTMagR = Map.empty,
      LSSTMagI = Map.empty, LSSTMagZ = Map.empty, LSSTMagY = Map.empty\<rparr>"

definition exampleStarMaps :: "string starMaps" where
  "exampleStarMaps =
     ([(''R:2,2 S:1,1'', exampleStars), (''R:2,2 S:1,0'', noStars)],
      [(''R:2,2 S:1,1'', \<lparr>RA = [1 / 10]\<rparr>), (''R:2,2 S:1,0'', \<lparr>RA = []\<rparr>)],
      [(''R:2,2 S:1,1'', ''corners11''), (''R:2,2 S:1,0'', ''corners10'')])"

definition exampleSelector :: "string \<Rightarrow> string starMaps \<Rightarrow> string SourceSelector" where
  "exampleSelector kind answer =
     \<lparr>name = kind, LocalDb = ''LocalDb'', getFilter = ''g'',
      getTargetStar = (\<lambda>calls pointing cameraRotation orientation tableName. answer)\<rparr>"



text \<open>
  A source processor that answers every extraction with the given stars in the cutout
  (images are named by strings), and deblends to a fixed center. One sensor with the
  candidate star of \<open>exampleStars\<close>, seen in both defocal images or in one only.
  \<open>crowdedCutout\<close> has three stars in the cutout, \<open>singleCutout\<close> one.
\<close>

definition exampleProcessor :: "string SingleTarget \<Rightarrow> string SourceProcessor" where
  "exampleProcessor t =
     \<lparr>abbrevDectectorName = (\<lambda>sensorName. sensorName),
      getSingleTargetImage =
        (\<lambda>configured ccdImg nbr ii aFilter. t\<lparr>singleSciNeiImg := ''cutout of '' @ ccdImg\<rparr>),
      doDeblending = (\<lambda>img xs ys ratios. (Some (''deblended '' @ img), 1, 2))\<rparr>"

definition crowdedCutout :: "string SingleTarget" where
  "crowdedCutout =
     \<lparr>singleSciNeiImg = '''', allStarPosX = [10, 20, 30], allStarPosY = [15, 25, 35],
      magRatio = [1, 1 / 2, 1 / 4], offsetX = 100, offsetY = 200\<rparr>"

definition singleCutout :: "string SingleTarget" where
  "singleCutout =
     \<lparr>singleSciNeiImg = '''', allStarPosX = [10], allStarPosY = [15],
      magRatio = [1], offsetX = 100, offsetY = 200\<rparr>"

definition exampleNeighborStarMap :: "string \<rightharpoonup> NeighboringStar" where
  "exampleNeighborStarMap = [''R:2,2 S:1,1'' \<mapsto> exampleStars]"

definition bothImages :: "(string \<times> string DefocalImage) list" where
  "bothImages = [(''R:2,2 S:1,1'', \<lparr>intraImg = Some ''intra'', extraImg = Some ''extra''\<rparr>)]"

definition intraOnly :: "(string \<times> string DefocalImage) list" where
  "intraOnly = [(''R:2,2 S:1,1'', \<lparr>intraImg = Some ''intra'', extraImg = None\<rparr>)]"

text \<open>
  A raw-data directory with one file for each half of the corner sensor \<open>R:0,0 S:2,2\<close>;
  images are named by strings.
\<close>

definition exampleSources :: "string ImageSources" where
  "exampleSources =
     \<lparr>pathOfRawData = ''raw'',
      getRawFileList = (\<lambda>dir. [''wfs_R00_S22_C0_E000.fits'', ''wfs_R00_S22_C1_E000.fits'']),
      butlerGet = (\<lambda>visit snap raft sensor. ''butler image''),
      abbrevName =
        (\<lambda>sensorName. if sensorName = ''R:0,0 S:2,2,A'' then ''R00_S22_C0''
                       else if sensorName = ''R:0,0 S:2,2,B'' then ''R00_S22_C1'' else ''none''),
      fileMatch =
        (\<lambda>matchName snap fileName.
           if fileName = ''wfs_'' @ matchName @ ''_E000.fits'' then Some fileName else None),
      fitsGetdata = (\<lambda>path dir file. ''image of '' @ file)\<rparr>"

text \<open>
  A candidate star whose right ascension has seven digits after the decimal point, and a
  database whose catalog table of the filter g exists and is empty.
\<close>

definition fineStars :: NeighboringStar where
  "fineStars =
     \<lparr>SimobjID = [(523572575, [])], RaDecl = [523572575 \<mapsto> (1234567 / 10000000, 21 / 10)],
      LSSTMagU = Map.empty, LSSTMagG = [523572575 \<mapsto> 2], LSSTMagR = Map.empty,
      LSSTMagI = Map.empty, LSSTMagZ = Map.empty, LSSTMagY = Map.empty\<rparr>"

definition emptyCatalog :: catalog where
  "emptyCatalog = [''BrightStarCatalogG'' \<mapsto> []]"

section \<open>Proofs: loops\<close>

lemma forEach_append:
  "forEach body (xs @ ys) s =
     (case forEach body xs s of Inl e \<Rightarrow> Inl e | Inr s' \<Rightarrow> forEach body ys s')"
  by (induction xs arbitrary: s) (auto split: sum.splits)

lemma forEach_invariant:
  assumes "forEach body xs s = Inr s'"
    and "P s"
    and "\<And>x t t'. x \<in> set xs \<Longrightarrow> P t \<Longrightarrow> body x t = Inr t' \<Longrightarrow> P t'"
  shows "P s'"
  using assms
proof (induction xs arbitrary: s)
  case Nil
  then show ?case by simp
next
  case (Cons x xs)
  from Cons.prems(1) obtain t where t: "body x s = Inr t" and rest: "forEach body xs t = Inr s'"
    by (auto split: sum.splits)
  have "P t" using Cons.prems(2) t Cons.prems(3) [of x s t] by simp
  moreover have "\<And>y u u'. y \<in> set xs \<Longrightarrow> P u \<Longrightarrow> body y u = Inr u' \<Longrightarrow> P u'"
    using Cons.prems(3) by (meson list.set_intros(2))
  ultimately show ?case using Cons.IH [OF rest] by blast
qed

section \<open>Proofs: removing the sensors without stars\<close>








section \<open>Proofs: echoing a configuration file\<close>

lemma startswith_hashes: "startswith l ''###'' \<Longrightarrow> startswith l ''#''"
  by (cases l) (auto simp: startswith_def)

lemma delimitersBefore_Cons:
  "delimitersBefore (raw # rest) (Suc i) =
     (if startswith (strip raw) ''###'' then 1 else 0) + delimitersBefore rest i"
  by (simp add: delimitersBefore_def)

lemma upt_Suc_shift: "[0..<Suc n] = 0 # map Suc [0..<n]"
  by (simp add: upt_conv_Cons map_Suc_upt del: upt_Suc)

text \<open>
  The loop started with the flag at 0 or at -1 (the only values it takes) echoes the
  lines that are outside every block, where a flag of -1 counts as one delimiter more.
\<close>

lemma readLines_echoed:
  "iscomment = 0 \<or> iscomment = -1 \<Longrightarrow>
   readLines iscomment fconfig =
     map (\<lambda>i. strip (fconfig ! i) @ [CHR 0x0A])
       (filter (\<lambda>i. \<not> startswith (strip (fconfig ! i)) ''#''
                   \<and> (even (delimitersBefore fconfig i) = (iscomment = 0))
                   \<and> strip (fconfig ! i) \<noteq> [])
          [0..<length fconfig])"
  (is "_ \<Longrightarrow> _ = map ?out (filter (?keep iscomment fconfig) _)")
proof (induction fconfig arbitrary: iscomment)
  case Nil
  then show ?case by simp
next
  case (Cons raw rest)
  let ?isc' = "if startswith (strip raw) ''###'' then pyInvert iscomment else iscomment"
  have st: "?isc' = 0 \<or> ?isc' = -1"
    using Cons.prems by (auto simp: pyInvert_def)
  have tl: "filter (\<lambda>i. ?keep iscomment (raw # rest) (Suc i)) [0..<length rest]
            = filter (?keep ?isc' rest) [0..<length rest]"
    using Cons.prems
    by (intro filter_cong) (auto simp: delimitersBefore_Cons pyInvert_def)
  have hd: "?keep iscomment (raw # rest) 0
            = (\<not> startswith (strip raw) ''#'' \<and> ?isc' = 0 \<and> length (strip raw) > 0)"
    using startswith_hashes [of "strip raw"]
    by (auto simp: delimitersBefore_def)
  have "map (\<lambda>i. strip ((raw # rest) ! i) @ [CHR 0x0A])
          (filter (?keep iscomment (raw # rest)) [0..<length (raw # rest)])
        = (if ?keep iscomment (raw # rest) 0 then [strip raw @ [CHR 0x0A]] else [])
          @ map (\<lambda>i. strip (rest ! i) @ [CHR 0x0A])
              (filter (\<lambda>i. ?keep iscomment (raw # rest) (Suc i)) [0..<length rest])"
    unfolding length_Cons upt_Suc_shift
    by (simp add: filter_map comp_def del: upt_Suc)
  also have "\<dots> = readLines iscomment (raw # rest)"
    unfolding tl hd using Cons.IH [OF st] by (simp add: Let_def)
  finally show ?case by simp
qed

text \<open>
  C8: the echo of a definition file is the header followed, in input order, by the
  stripped form of exactly the lines that do not start with \<open>#\<close>, lie outside every
  \<open>###\<close>-delimited block and are not empty. This holds for every file, so for every
  file with balanced block comments.
\<close>

theorem readConfigFile_echoes_pairs:
  "readConfigFile configName filename fconfig =
     [[CHR 0x0A],
      ''---'' @ configName @ '' file: --- '' @ filename @ '' ----------'' @ [CHR 0x0A]]
     @ echoSpec fconfig"
  using readLines_echoed [of 0 fconfig]
  by (simp add: readConfigFile_def echoSpec_def echoed_def cong: filter_cong)

theorem readConfigFile_echoes_pairs_witness:
  "readConfigFile ''instrument'' ''lsst.param'' exampleConfig =
     [[CHR 0x0A], ''---instrument file: --- lsst.param ----------'' @ [CHR 0x0A],
      ''Obscuration 0.61'' @ [CHR 0x0A], ''Pixel_size 10.0e-6'' @ [CHR 0x0A]]"
  unfolding readConfigFile_echoes_pairs
  by code_simp

section \<open>Proofs: target stars\<close>






text \<open>
  C5: with a source selector that is not of the local-database kind, the call raises
  \<open>TypeError\<close> and the trace of calls on the selector and its database is the one
  before the call: no connection, no table creation, no insertion and no star query
  was made.
\<close>

theorem getTargetStarByFile_not_local:
  "name sourSelc \<noteq> LocalDb sourSelc \<Longrightarrow>
   getTargetStarByFile sourSelc dbAdress skyInfoFilePath pointing cameraRotation orientation
     tableName calls = (Inl TypeError, calls)"
  by (simp add: getTargetStarByFile_def)

theorem getTargetStarByFile_not_local_witness:
  "name (exampleSelector ''RemoteDb'' exampleStarMaps)
     \<noteq> LocalDb (exampleSelector ''RemoteDb'' exampleStarMaps)
   \<and> getTargetStarByFile (exampleSelector ''RemoteDb'' exampleStarMaps) ''bsc.db3'' ''sky.txt''
        (0, 0) 0 None ''TempTable'' [] = (Inl TypeError, [])"
proof -
  have kind: "name (exampleSelector ''RemoteDb'' exampleStarMaps)
              \<noteq> LocalDb (exampleSelector ''RemoteDb'' exampleStarMaps)"
    by (simp add: exampleSelector_def)
  from getTargetStarByFile_not_local [OF kind] kind show ?thesis
    by simp
qed

text \<open>
  With a selector of the local-database kind, in contrast, the trace grows by the
  connection, the table creation, the insertion and the star query, in this order, before
  anything else.
\<close>

lemma getTargetStarByFile_local_trace:
  "name sourSelc = LocalDb sourSelc \<Longrightarrow>
   \<exists>rest. snd (getTargetStarByFile sourSelc dbAdress skyInfoFilePath pointing cameraRotation
                 orientation tableName calls)
          = calls @ [Connect dbAdress, CreateTable (getFilter sourSelc) tableName,
                     InsertDataByFile (getFilter sourSelc) tableName skyInfoFilePath 1,
                     GetTargetStar pointing cameraRotation orientation tableName] @ rest"
  by (auto simp: getTargetStarByFile_def Let_def split: prod.splits sum.splits)

section \<open>Proofs: sensor names\<close>

lemma doISR_raises_iff:
  "fst (doISR visit sensorName snap fake out calls) = Inl RuntimeError
     \<longleftrightarrow> matchSensorName sensorName = None"
  by (auto simp: doISR_def getSensorInfo_def split: option.splits prod.splits)

lemma canonicalName_accepted:
  assumes "canonicalName sensorName"
  shows "doISR visit sensorName snap fake out calls
         = (Inr (), calls @ [IsrDoISR visit snap (Some (take 3 (drop 2 sensorName)))
                               (Some (take 3 (drop 8 sensorName))) None fake out])"
proof -
  from assms have len: "11 \<le> length sensorName"
    and pre: "take 2 sensorName = ''R:''" "isDigit (sensorName ! 2)" "sensorName ! 3 = CHR '',''"
      "isDigit (sensorName ! 4)" "take 3 (drop 5 sensorName) = '' S:''" "isDigit (sensorName ! 8)"
      "sensorName ! 9 = CHR '',''" "isDigit (sensorName ! 10)"
    and suf: "drop 11 sensorName = [] \<or> drop 11 sensorName = '',A'' \<or> drop 11 sensorName = '',B''"
    by (auto simp: canonicalName_def)
  from suf have "\<exists>ch. matchSensorName sensorName
                   = Some (take 3 (drop 2 sensorName), take 3 (drop 8 sensorName), ch)"
    unfolding matchSensorName_def Let_def using len pre
    by (elim disjE) (simp_all add: atDollar_def)
  then show ?thesis
    by (auto simp: doISR_def getSensorInfo_def)
qed

text \<open>
  C6: \<open>doISR\<close> does not raise exactly on the names outside the canonical form. Every
  canonical name is accepted (\<open>canonicalName_accepted\<close>), but the character class
  \<^verbatim>\<open>[A,B]\<close> of the regular expression also holds the comma: the name
  \<open>R:0,0 S:2,2,,\<close> is not canonical, yet it is parsed, with the comma as its channel, and
  dispatched to the ISR wrapper without \<open>RuntimeError\<close>.
\<close>

theorem doISR_accepts_comma_channel:
  "\<not> canonicalName ''R:0,0 S:2,2,,''
   \<and> getSensorInfo ''R:0,0 S:2,2,,'' = (Some ''0,0'', Some ''2,2'', Some '','')
   \<and> doISR 9007000 ''R:0,0 S:2,2,,'' 0 ''eimage'' ''postISRCCD'' []
       = (Inr (), [IsrDoISR 9007000 0 (Some ''0,0'') (Some ''2,2'') None ''eimage'' ''postISRCCD''])"
  by (simp add: canonicalName_def doISR_def getSensorInfo_def matchSensorName_def isDigit_def
        atDollar_def)

text \<open>
  The same holds for a canonical name followed by a newline, which \<^verbatim>\<open>$\<close> lets pass,
  while a name with another channel letter is refused.
\<close>

lemma doISR_accepts_trailing_newline:
  "\<not> canonicalName (''R:0,0 S:2,2,A'' @ [CHR 0x0A])
   \<and> fst (doISR 9007000 (''R:0,0 S:2,2,A'' @ [CHR 0x0A]) 0 ''eimage'' ''postISRCCD'' []) = Inr ()
   \<and> fst (doISR 9007000 ''R:0,0 S:2,2,C'' 0 ''eimage'' ''postISRCCD'' []) = Inl RuntimeError"
  by (simp add: canonicalName_def doISR_def getSensorInfo_def matchSensorName_def isDigit_def
        atDollar_def)

text \<open>
  The names that \<open>doISR\<close> accepts are exactly those with a canonical first eleven
  characters followed by nothing, a channel \<open>,A\<close> or \<open>,B\<close>, or the two commas, each
  possibly followed by one newline.
\<close>

lemma accepted_rest:
  "(2 \<le> length rest \<and> rest ! 0 = CHR '','' \<and> rest ! 1 \<in> set ''A,B'' \<and> atDollar (drop 2 rest))
     \<or> atDollar rest
   \<longleftrightarrow> rest \<in> set ['''', '',A'', '',B'', '',,'', [CHR 0x0A], '',A'' @ [CHR 0x0A],
                    '',B'' @ [CHR 0x0A], '',,'' @ [CHR 0x0A]]"
proof (cases rest)
  case Nil
  then show ?thesis by (simp add: atDollar_def)
next
  case (Cons a r1)
  show ?thesis
  proof (cases r1)
    case Nil
    with Cons show ?thesis by (auto simp: atDollar_def)
  next
    case (Cons b r2)
    with \<open>rest = a # r1\<close> show ?thesis
      by (cases r2) (auto simp: atDollar_def)
  qed
qed

lemma doISR_accepts_iff:
  "fst (doISR visit sensorName snap fake out calls) = Inr ()
     \<longleftrightarrow> canonicalName (take 11 sensorName)
         \<and> drop 11 sensorName \<in> set ['''', '',A'', '',B'', '',,'', [CHR 0x0A], '',A'' @ [CHR 0x0A],
                    '',B'' @ [CHR 0x0A], '',,'' @ [CHR 0x0A]]"
proof -
  have "fst (doISR visit sensorName snap fake out calls) = Inr ()
        \<longleftrightarrow> matchSensorName sensorName \<noteq> None"
    by (auto simp: doISR_def getSensorInfo_def split: option.splits prod.splits)
  also have "\<dots> \<longleftrightarrow> canonicalName (take 11 sensorName)
         \<and> ((2 \<le> length (drop 11 sensorName) \<and> drop 11 sensorName ! 0 = CHR '',''
               \<and> drop 11 sensorName ! 1 \<in> set ''A,B'' \<and> atDollar (drop 2 (drop 11 sensorName)))
             \<or> atDollar (drop 11 sensorName))"
    by (auto simp: matchSensorName_def canonicalName_def Let_def min_def drop_take)
  finally show ?thesis
    unfolding accepted_rest .
qed

section \<open>Proofs: post-ISR defocal images\<close>

lemma sensorImages_other:
  "sensorImages src obsIdList wfsDir snap other m = Inr m' \<Longrightarrow> other \<noteq> sensorName
   \<Longrightarrow> m' sensorName = m sensorName"
  by (auto simp: sensorImages_def Let_def split: prod.splits option.splits sum.splits if_splits)

lemma sensorImages_matched:
  assumes "sensorImages src obsIdList (Some dir) snap sensorName m = Inr m'"
    and "searchFileName (fileMatch src) (getRawFileList src dir) (abbrevName src sensorName) snap
         = Some matchFileName"
  shows "m' sensorName =
     Some (let wfsImg = fitsGetdata src (pathOfRawData src) dir matchFileName;
               channel = snd (snd (getSensorInfo sensorName))
           in if channel = Some ''A'' then \<lparr>intraImg = Some wfsImg, extraImg = None\<rparr>
              else if channel = Some ''B'' then \<lparr>intraImg = None, extraImg = Some wfsImg\<rparr>
              else \<lparr>intraImg = None, extraImg = None\<rparr>)"
  using assms
  by (auto simp: sensorImages_def Let_def setImg_def newDefocalImage_def
           split: prod.splits option.splits sum.splits if_splits)

lemma forEach_sensorImages_matched:
  assumes "forEach (sensorImages src obsIdList (Some dir) snap) names m = Inr m'"
    and "searchFileName (fileMatch src) (getRawFileList src dir) (abbrevName src sensorName) snap
         = Some matchFileName"
    and "sensorName \<in> set names \<or> m sensorName = Some v"
    and "v = (let wfsImg = fitsGetdata src (pathOfRawData src) dir matchFileName;
               channel = snd (snd (getSensorInfo sensorName))
           in if channel = Some ''A'' then \<lparr>intraImg = Some wfsImg, extraImg = None\<rparr>
              else if channel = Some ''B'' then \<lparr>intraImg = None, extraImg = Some wfsImg\<rparr>
              else \<lparr>intraImg = None, extraImg = None\<rparr>)"
  shows "m' sensorName = Some v"
  using assms(1,3)
proof (induction names arbitrary: m)
  case Nil
  then show ?case by simp
next
  case (Cons x names)
  from Cons.prems(1) obtain m1 where
    step: "sensorImages src obsIdList (Some dir) snap x m = Inr m1"
    and rest: "forEach (sensorImages src obsIdList (Some dir) snap) names m1 = Inr m'"
    by (auto split: sum.splits)
  have "sensorName \<in> set names \<or> m1 sensorName = Some v"
  proof (cases "x = sensorName")
    case True
    then show ?thesis using sensorImages_matched [OF _ assms(2)] step assms(4) by simp
  next
    case False
    then show ?thesis using sensorImages_other [OF step False] Cons.prems(2) by auto
  qed
  then show ?case using Cons.IH [OF rest] by simp
qed

lemma getPostISRDefocalImgMap_matched:
  assumes "getPostISRDefocalImgMap src sensorNameList obsIdList (Some wfsDir) snap = Inr wfsImgMap"
    and "sensorName \<in> set sensorNameList"
    and "searchFileName (fileMatch src) (getRawFileList src wfsDir) (abbrevName src sensorName)
           snap = Some matchFileName"
  shows "(snd (snd (getSensorInfo sensorName)) = Some ''A'' \<longrightarrow>
            wfsImgMap sensorName
            = Some \<lparr>intraImg = Some (fitsGetdata src (pathOfRawData src) wfsDir matchFileName),
                    extraImg = None\<rparr>)
       \<and> (snd (snd (getSensorInfo sensorName)) = Some ''B'' \<longrightarrow>
            wfsImgMap sensorName
            = Some \<lparr>intraImg = None,
                    extraImg = Some (fitsGetdata src (pathOfRawData src) wfsDir matchFileName)\<rparr>)"
  using forEach_sensorImages_matched [OF assms(1) [unfolded getPostISRDefocalImgMap_def] assms(3)
          disjI1 [OF assms(2)] refl]
  by (simp add: Let_def)

lemma sensorImages_returns:
  "obsIdList = None \<or> (\<exists>ids. obsIdList = Some ids \<and> 2 \<le> length ids) \<Longrightarrow>
   \<exists>m'. sensorImages src obsIdList wfsDir snap sensorName m = Inr m'"
  by (auto simp: sensorImages_def Let_def split: prod.splits option.splits)

lemma getPostISRDefocalImgMap_returns:
  assumes "obsIdList = None \<or> (\<exists>ids. obsIdList = Some ids \<and> 2 \<le> length ids)"
  shows "\<exists>m. getPostISRDefocalImgMap src sensorNameList obsIdList wfsDir snap = Inr m"
proof -
  have "\<exists>m'. forEach (sensorImages src obsIdList wfsDir snap) names m = Inr m'" for names m
  proof (induction names arbitrary: m)
    case Nil
    then show ?case by simp
  next
    case (Cons x names)
    from sensorImages_returns [OF assms] obtain m1 where
      "sensorImages src obsIdList wfsDir snap x m = Inr m1" by blast
    then show ?case using Cons.IH [of m1] by simp
  qed
  then show ?thesis by (simp add: getPostISRDefocalImgMap_def)
qed

text \<open>
  C7: on a wavefront-sensor file directory (with no observation identifiers, or with
  the two the butler needs) the call returns, and for every sensor name of the list
  with a matched file: when the channel of the name is A the sensor's entry holds the
  file's image as its intra-focal image and no extra-focal image; when the channel is B
  it holds the image as its extra-focal image and no intra-focal image.
\<close>

theorem getPostISRDefocalImgMap_channel:
  assumes "obsIdList = None \<or> (\<exists>ids. obsIdList = Some ids \<and> 2 \<le> length ids)"
    and "sensorName \<in> set sensorNameList"
    and "searchFileName (fileMatch src) (getRawFileList src wfsDir) (abbrevName src sensorName)
           snap = Some matchFileName"
  shows "\<exists>wfsImgMap.
           getPostISRDefocalImgMap src sensorNameList obsIdList (Some wfsDir) snap = Inr wfsImgMap
           \<and> (snd (snd (getSensorInfo sensorName)) = Some ''A'' \<longrightarrow>
                wfsImgMap sensorName
                = Some \<lparr>intraImg = Some (fitsGetdata src (pathOfRawData src) wfsDir matchFileName),
                        extraImg = None\<rparr>)
           \<and> (snd (snd (getSensorInfo sensorName)) = Some ''B'' \<longrightarrow>
                wfsImgMap sensorName
                = Some \<lparr>intraImg = None,
                        extraImg = Some (fitsGetdata src (pathOfRawData src) wfsDir
                                           matchFileName)\<rparr>)"
proof -
  from getPostISRDefocalImgMap_returns [OF assms(1)] obtain wfsImgMap where
    ret: "getPostISRDefocalImgMap src sensorNameList obsIdList (Some wfsDir) snap = Inr wfsImgMap"
    by blast
  from getPostISRDefocalImgMap_matched [OF ret assms(2,3)] ret show ?thesis
    by blast
qed

theorem getPostISRDefocalImgMap_channel_witness:
  "\<exists>wfsImgMap.
     getPostISRDefocalImgMap exampleSources [''R:0,0 S:2,2,A'', ''R:0,0 S:2,2,B''] None
       (Some ''realWfs/output'') 0 = Inr wfsImgMap
     \<and> wfsImgMap ''R:0,0 S:2,2,A''
         = Some \<lparr>intraImg = Some ''image of wfs_R00_S22_C0_E000.fits'', extraImg = None\<rparr>"
proof -
  have ids: "(None :: int list option) = None \<or> (\<exists>ids. None = Some ids \<and> 2 \<le> length ids)"
    by simp
  have name: "''R:0,0 S:2,2,A'' \<in> set [''R:0,0 S:2,2,A'', ''R:0,0 S:2,2,B'']"
    by simp
  have found: "searchFileName (fileMatch exampleSources)
                (getRawFileList exampleSources ''realWfs/output'')
                (abbrevName exampleSources ''R:0,0 S:2,2,A'') 0
              = Some ''wfs_R00_S22_C0_E000.fits''"
    by (simp add: exampleSources_def)
  have channel: "snd (snd (getSensorInfo ''R:0,0 S:2,2,A'')) = Some ''A''"
    by (simp add: getSensorInfo_def matchSensorName_def isDigit_def atDollar_def)
  from getPostISRDefocalImgMap_channel [OF ids name found] channel show ?thesis
    by (simp add: exampleSources_def)
qed

section \<open>Proofs: updateData\<close>

lemma checkItems_ValueError:
  "checkItems items = Inl e \<longleftrightarrow> e = ValueError \<and> (\<exists>item \<in> set items. item \<notin> set updatableItems)"
  by (induction items) auto

lemma checkItems_ok:
  "checkItems items = Inr u \<longleftrightarrow> (\<forall>item \<in> set items. item \<in> set updatableItems)"
  by (induction items) auto

lemma updateRows_error:
  "updateRows pyStr cf ids items vals idxs calls = (Inl e, calls') \<Longrightarrow> e = IndexError"
  by (induction idxs arbitrary: calls) (auto simp: Let_def split: if_splits)

lemma updateRows_ok:
  "\<forall>ii \<in> set idxs. ii < length items \<and> ii < length vals \<Longrightarrow>
   updateRows pyStr cf ids items vals idxs calls =
     (Inr (), calls @ map (\<lambda>ii. Execute (updateCommand cf (columnOf cf (items ! ii)) (pyStr (vals ! ii)))
                             [ids ! ii]) idxs)"
  by (induction idxs arbitrary: calls) (auto simp: Let_def columnOf_def)

text \<open>
  C9: \<open>updateData\<close> raises \<open>ValueError\<close> if and only if some entry of
  \<open>listOfItemToChange\<close> is not one of the five updatable items; in that case nothing
  was sent to the cursor or the connection; and when all entries are updatable (and the
  two lists are as long as \<open>listID\<close>) the statements executed are the updates of the
  columns the items name, \<open>mag\<close> naming the magnitude column of the filter, followed
  by the commit.
\<close>

theorem updateData_checks_first:
  "(fst (updateData pyStr cameraFilter listID listOfItemToChange listOfNewValue calls) = Inl ValueError
      \<longleftrightarrow> (\<exists>item \<in> set listOfItemToChange. item \<notin> set updatableItems))
   \<and> ((\<exists>item \<in> set listOfItemToChange. item \<notin> set updatableItems) \<longrightarrow>
        snd (updateData pyStr cameraFilter listID listOfItemToChange listOfNewValue calls) = calls)
   \<and> ((\<forall>item \<in> set listOfItemToChange. item \<in> set updatableItems)
        \<and> length listID \<le> length listOfItemToChange \<and> length listID \<le> length listOfNewValue \<longrightarrow>
        updateData pyStr cameraFilter listID listOfItemToChange listOfNewValue calls
        = (Inr (),
           calls @ map (\<lambda>ii. Execute (updateCommand cameraFilter
                                         (columnOf cameraFilter (listOfItemToChange ! ii))
                                         (pyStr (listOfNewValue ! ii)))
                                 [listID ! ii]) [0..<length listID]
                 @ [Commit]))"
proof (intro conjI impI)
  show "fst (updateData pyStr cameraFilter listID listOfItemToChange listOfNewValue calls)
          = Inl ValueError
        \<longleftrightarrow> (\<exists>item \<in> set listOfItemToChange. item \<notin> set updatableItems)"
  proof (cases "checkItems listOfItemToChange")
    case (Inl e)
    then show ?thesis using checkItems_ValueError [of listOfItemToChange e]
      by (simp add: updateData_def)
  next
    case (Inr u)
    then have ok: "\<forall>item \<in> set listOfItemToChange. item \<in> set updatableItems"
      by (simp add: checkItems_ok)
    obtain r calls' where
      rows: "updateRows pyStr cameraFilter listID listOfItemToChange listOfNewValue
               [0..<length listID] calls = (r, calls')"
      by (cases "updateRows pyStr cameraFilter listID listOfItemToChange listOfNewValue
               [0..<length listID] calls")
    have "fst (updateData pyStr cameraFilter listID listOfItemToChange listOfNewValue calls)
          \<noteq> Inl ValueError"
      using Inr rows updateRows_error [of pyStr cameraFilter listID listOfItemToChange
          listOfNewValue "[0..<length listID]" calls _ calls']
      by (cases r) (auto simp: updateData_def)
    then show ?thesis using ok by blast
  qed
next
  assume "\<exists>item \<in> set listOfItemToChange. item \<notin> set updatableItems"
  then have "checkItems listOfItemToChange = Inl ValueError"
    by (simp add: checkItems_ValueError)
  then show "snd (updateData pyStr cameraFilter listID listOfItemToChange listOfNewValue calls)
             = calls"
    by (simp add: updateData_def)
next
  assume a: "(\<forall>item \<in> set listOfItemToChange. item \<in> set updatableItems)
        \<and> length listID \<le> length listOfItemToChange \<and> length listID \<le> length listOfNewValue"
  then have "checkItems listOfItemToChange = Inr ()"
    by (simp add: checkItems_ok)
  moreover have "\<forall>ii \<in> set [0..<length listID].
      ii < length listOfItemToChange \<and> ii < length listOfNewValue"
    using a by auto
  ultimately show "updateData pyStr cameraFilter listID listOfItemToChange listOfNewValue calls
        = (Inr (),
           calls @ map (\<lambda>ii. Execute (updateCommand cameraFilter
                                         (columnOf cameraFilter (listOfItemToChange ! ii))
                                         (pyStr (listOfNewValue ! ii)))
                                 [listID ! ii]) [0..<length listID]
                 @ [Commit])"
    by (simp add: updateData_def updateRows_ok)
qed

theorem updateData_checks_first_witness:
  "updateData (\<lambda>v. v) ''g'' [1, 2] [''ra'', ''mag''] [''1.0'', ''2.5''] []
     = (Inr (), [Execute ''UPDATE BrightStarCatalogG SET ra=1.0 WHERE id=?'' [1],
                 Execute ''UPDATE BrightStarCatalogG SET gmag=2.5 WHERE id=?'' [2], Commit])
   \<and> updateData (\<lambda>v. v) ''g'' [1, 2] [''ra'', ''magnitude''] [''1.0'', ''2.5''] []
     = (Inl ValueError, [])"
proof -
  have table: "catalogTable ''g'' = ''BrightStarCatalogG''"
    by code_simp
  have valid: "(\<forall>item \<in> set [''ra'', ''mag'']. item \<in> set updatableItems)
               \<and> length [1, 2 :: int] \<le> length [''ra'', ''mag'']
               \<and> length [1, 2 :: int] \<le> length [''1.0'', ''2.5'']"
    by (simp add: updatableItems_def)
  have invalid: "\<exists>item \<in> set [''ra'', ''magnitude'']. item \<notin> set updatableItems"
    by (simp add: updatableItems_def)
  have first: "updateData (\<lambda>v. v) ''g'' [1, 2] [''ra'', ''mag''] [''1.0'', ''2.5''] []
     = (Inr (), [Execute ''UPDATE BrightStarCatalogG SET ra=1.0 WHERE id=?'' [1],
                 Execute ''UPDATE BrightStarCatalogG SET gmag=2.5 WHERE id=?'' [2], Commit])"
    using updateData_checks_first [of "\<lambda>v. v" "''g''" "[1, 2]" "[''ra'', ''mag'']"
            "[''1.0'', ''2.5'']" "[]"] valid
    by (simp add: updateCommand_def columnOf_def table)
  have second: "updateData (\<lambda>v. v) ''g'' [1, 2] [''ra'', ''magnitude''] [''1.0'', ''2.5''] []
     = (Inl ValueError, [])"
    using updateData_checks_first [of "\<lambda>v. v" "''g''" "[1, 2]" "[''ra'', ''magnitude'']"
            "[''1.0'', ''2.5'']" "[]"] invalid
    by (simp add: prod_eq_iff)
  from first second show ?thesis by simp
qed

section \<open>Proofs: the search in a donut list\<close>

lemma searchIndices_ge: "- 1 \<le> searchIndices idxs donutList sid"
  by (induction idxs) auto

lemma searchIndices_neg:
  "searchIndices idxs donutList sid < 0 \<longleftrightarrow> (\<forall>i \<in> set idxs. starId (donutList ! i) \<noteq> sid)"
  by (induction idxs) auto

lemma searchIndices_shift:
  "searchIndices (map Suc idxs) (d # ds) sid =
     (let r = searchIndices idxs ds sid in if r < 0 then - 1 else r + 1)"
  using searchIndices_ge [of idxs ds sid]
  by (induction idxs) (auto simp: Let_def)

lemma searchDonutListId_Nil: "searchDonutListId [] sid = - 1"
  by (simp add: searchDonutListId_def)

lemma searchDonutListId_Cons:
  "searchDonutListId (d # ds) sid =
     (if starId d = sid then 0
      else let r = searchDonutListId ds sid in if r < 0 then - 1 else r + 1)"
  unfolding searchDonutListId_def length_Cons
  by (simp add: upt_conv_Cons map_Suc_upt [symmetric] searchIndices_shift del: upt_Suc)

lemma searchDonutListId_ge: "- 1 \<le> searchDonutListId donutList sid"
  by (simp add: searchDonutListId_def searchIndices_ge)

lemma searchDonutListId_neg:
  "searchDonutListId donutList sid < 0 \<longleftrightarrow> sid \<notin> starId ` set donutList"
proof -
  have "(\<forall>i \<in> set [0..<length donutList]. starId (donutList ! i) \<noteq> sid)
        \<longleftrightarrow> (\<forall>d \<in> set donutList. starId d \<noteq> sid)"
    by (auto simp: all_set_conv_all_nth)
  then show ?thesis
    by (auto simp: searchDonutListId_def searchIndices_neg)
qed

lemma searchDonutListId_less: "searchDonutListId donutList sid < int (length donutList)"
  by (induction donutList) (auto simp: searchDonutListId_Nil searchDonutListId_Cons Let_def)

section \<open>Proofs: putting a donut image into the map\<close>

lemma updateAt_Cons_0: "updateAt 0 f (d # ds) = Inr (f d # ds)"
  by (simp add: updateAt_def)

lemma updateAt_Cons_Suc:
  "0 \<le> k \<Longrightarrow> updateAt (k + 1) f (d # ds) =
     (case updateAt k f ds of Inl e \<Rightarrow> Inl e | Inr ds' \<Rightarrow> Inr (d # ds'))"
  by (auto simp: updateAt_def Let_def nat_add_distrib)

text \<open>Lines 447 to 467 on the list of the sensor.\<close>

lemma upsert_list:
  assumes "starId new = sid"
  shows "(let donutIndex0 = searchDonutListId donutList0 sid;
              donutList = (if donutIndex0 < 0 then donutList0 @ [new] else donutList0);
              donutIndex = (if donutIndex0 < 0 then searchDonutListId donutList sid
                            else donutIndex0)
          in updateAt donutIndex f donutList)
         = Inr (upsertDonut f new sid donutList0)"
proof (induction donutList0)
  case Nil
  then show ?case
    using assms by (simp add: searchDonutListId_Nil searchDonutListId_Cons updateAt_Cons_0)
next
  case (Cons d ds)
  show ?case
  proof (cases "starId d = sid")
    case True
    then show ?thesis by (simp add: searchDonutListId_Cons updateAt_Cons_0)
  next
    case False
    show ?thesis
    proof (cases "searchDonutListId ds sid < 0")
      case True
      have "0 \<le> searchDonutListId (ds @ [new]) sid"
        using searchDonutListId_neg [of "ds @ [new]" sid] assms by (auto simp: image_iff)
      then show ?thesis
        using Cons.IH True False
        by (simp add: searchDonutListId_Cons Let_def updateAt_Cons_Suc)
    next
      case nonneg: False
      then show ?thesis
        using Cons.IH False
        by (simp add: searchDonutListId_Cons Let_def updateAt_Cons_Suc)
    qed
  qed
qed

lemma starId_setRole: "starId (setRole jj img d) = starId d"
  by (simp add: setRole_def setImg_def)

lemma putDonut_upsert:
  "putDonut sensorName sid jj img x y donutMap =
     Inr (donutMap(sensorName \<mapsto>
            upsertDonut (setRole jj img) (newDonutImage sid x y) sid
              (case donutMap sensorName of None \<Rightarrow> [] | Some l \<Rightarrow> l)))"
proof -
  have "starId (newDonutImage sid x y :: 'a DonutImage) = sid"
    by (simp add: newDonutImage_def)
  from upsert_list [OF this, of "case donutMap sensorName of None \<Rightarrow> [] | Some l \<Rightarrow> l"
      "setRole jj img"]
  show ?thesis
    by (simp add: putDonut_def Let_def)
qed

lemma map_starId_upsert:
  assumes "\<And>d. starId (f d) = starId d" "starId new = sid"
  shows "map starId (upsertDonut f new sid l) =
     (if sid \<in> set (map starId l) then map starId l else map starId l @ [sid])"
  using assms by (induction l) auto

lemma find_upsert_same:
  assumes "\<And>d. starId (f d) = starId d" "starId new = sid"
  shows "find (\<lambda>d. starId d = sid) (upsertDonut f new sid l) =
     Some (f (case find (\<lambda>d. starId d = sid) l of None \<Rightarrow> new | Some e \<Rightarrow> e))"
  using assms by (induction l) auto

lemma find_upsert_other:
  assumes "\<And>d. starId (f d) = starId d" "starId new = sid" "sid' \<noteq> sid"
  shows "find (\<lambda>d. starId d = sid') (upsertDonut f new sid l) = find (\<lambda>d. starId d = sid') l"
  using assms by (induction l) auto

section \<open>Proofs: one focal role of one star\<close>

lemma donutOfRole_cases:
  assumes "donutOfRole sourProc nbr aFilter doDeb sensorName ids imgs ii jj donutMap
           = Inr donutMap'"
  shows "case cutoutOf sourProc nbr aFilter doDeb sensorName (imgs ! jj) ii of
           None \<Rightarrow> donutMap' = donutMap
         | Some img \<Rightarrow>
             (\<exists>x y. centerOf sourProc nbr aFilter doDeb sensorName (imgs ! jj) ii = Some (x, y)
                \<and> donutMap' = donutMap(sensorName \<mapsto>
                     upsertDonut (setRole jj img) (newDonutImage (ids ! ii) x y) (ids ! ii)
                       (case donutMap sensorName of None \<Rightarrow> [] | Some l \<Rightarrow> l)))"
  using assms
  by (auto simp: donutOfRole_def cutoutOf_def centerOf_def putDonut_upsert Let_def
           split: option.splits sum.splits prod.splits)

lemma donutOfRole_other_sensor:
  assumes "donutOfRole sourProc nbr aFilter doDeb sensorName ids imgs ii jj donutMap
           = Inr donutMap'"
    and "other \<noteq> sensorName"
  shows "donutMap' other = donutMap other"
  using donutOfRole_cases [OF assms(1)] assms(2)
  by (auto split: option.splits)

lemma starId_newDonutImage: "starId (newDonutImage sid x y) = sid"
  by (simp add: newDonutImage_def)

lemma donutOfRole_other_star:
  assumes "donutOfRole sourProc nbr aFilter doDeb sensorName ids imgs ii jj donutMap
           = Inr donutMap'"
    and "sid \<noteq> ids ! ii"
  shows "entryOf donutMap' sensorName sid = entryOf donutMap sensorName sid"
  using donutOfRole_cases [OF assms(1)] assms(2)
  by (auto simp: entryOf_def find_upsert_other starId_setRole starId_newDonutImage
           split: option.splits)

lemma donutOfRole_same_star:
  assumes "donutOfRole sourProc nbr aFilter doDeb sensorName ids imgs ii jj donutMap
           = Inr donutMap'"
  shows "case cutoutOf sourProc nbr aFilter doDeb sensorName (imgs ! jj) ii of
           None \<Rightarrow> entryOf donutMap' sensorName (ids ! ii) = entryOf donutMap sensorName (ids ! ii)
         | Some img \<Rightarrow>
             (\<exists>x y. centerOf sourProc nbr aFilter doDeb sensorName (imgs ! jj) ii = Some (x, y)
                \<and> entryOf donutMap' sensorName (ids ! ii) =
                    Some (setRole jj img
                           (case entryOf donutMap sensorName (ids ! ii) of
                              None \<Rightarrow> newDonutImage (ids ! ii) x y
                            | Some e \<Rightarrow> e)))"
  using donutOfRole_cases [OF assms(1)]
  by (fastforce simp: entryOf_def find_upsert_same starId_setRole starId_newDonutImage
           split: option.splits)

section \<open>Proofs: the two roles of one star\<close>

lemma centerOf_None:
  "centerOf sourProc nbr aFilter doDeb sensorName defocalImg ii = None
     \<longleftrightarrow> cutoutOf sourProc nbr aFilter doDeb sensorName defocalImg ii = None"
  by (auto simp: centerOf_def cutoutOf_def Let_def split: option.splits sum.splits prod.splits)

lemma roles_other_sensor:
  assumes "forEach (donutOfRole sourProc nbr aFilter doDeb sensorName ids imgs ii) jjs donutMap
           = Inr donutMap'"
    and "other \<noteq> sensorName"
  shows "donutMap' other = donutMap other"
  by (rule forEach_invariant [OF assms(1), where P = "\<lambda>m. m other = donutMap other"])
     (auto dest: donutOfRole_other_sensor [OF _ assms(2)])

lemma roles_other_star:
  assumes "forEach (donutOfRole sourProc nbr aFilter doDeb sensorName ids imgs ii) jjs donutMap
           = Inr donutMap'"
    and "sid \<noteq> ids ! ii"
  shows "entryOf donutMap' sensorName sid = entryOf donutMap sensorName sid"
  by (rule forEach_invariant [OF assms(1),
        where P = "\<lambda>m. entryOf m sensorName sid = entryOf donutMap sensorName sid"])
     (auto dest: donutOfRole_other_star [OF _ assms(2)])

lemma roles_same_star:
  assumes "forEach (donutOfRole sourProc nbr aFilter doDeb sensorName ids [intra, extra] ii)
             [0..<2] donutMap = Inr donutMap'"
    and "entryOf donutMap sensorName (ids ! ii) = None"
  shows "case (cutoutOf sourProc nbr aFilter doDeb sensorName intra ii,
               cutoutOf sourProc nbr aFilter doDeb sensorName extra ii) of
           (None, None) \<Rightarrow> entryOf donutMap' sensorName (ids ! ii) = None
         | (c0, c1) \<Rightarrow>
             (\<exists>e. entryOf donutMap' sensorName (ids ! ii) = Some e \<and> starId e = ids ! ii
                \<and> intraImg e = c0 \<and> extraImg e = c1
                \<and> Some (pixelX e, pixelY e)
                    = (case centerOf sourProc nbr aFilter doDeb sensorName intra ii of
                         None \<Rightarrow> centerOf sourProc nbr aFilter doDeb sensorName extra ii
                       | Some c \<Rightarrow> Some c))"
proof -
  have two: "[0..<2] = [0, Suc 0]" by (simp add: upt_conv_Cons)
  from assms(1) obtain m1 where
    r0: "donutOfRole sourProc nbr aFilter doDeb sensorName ids [intra, extra] ii 0 donutMap
         = Inr m1"
    and r1: "donutOfRole sourProc nbr aFilter doDeb sensorName ids [intra, extra] ii (Suc 0) m1
         = Inr donutMap'"
    unfolding two by (auto split: sum.splits)
  from donutOfRole_same_star [OF r0] donutOfRole_same_star [OF r1] assms(2)
  show ?thesis
    using centerOf_None [of sourProc nbr aFilter doDeb sensorName intra ii]
    by (auto simp: setRole_def setImg_def newDonutImage_def split: option.splits)
qed

section \<open>Proofs: the stars of one sensor, the sensors of the map\<close>

lemma upt_split: "ii < n \<Longrightarrow> [0..<n] = [0..<ii] @ ii # [Suc ii..<n]"
proof -
  assume "ii < n"
  then have "[0..<n] = [0..<ii] @ [ii..<n]"
    using upt_add_eq_append [of 0 ii "n - ii"] by simp
  also have "[ii..<n] = ii # [Suc ii..<n]"
    using \<open>ii < n\<close> by (simp add: upt_conv_Cons)
  finally show ?thesis .
qed

lemma stars_other_sensor:
  assumes "forEach (starLoop sourProc nbr aFilter doDeb sensorName ids imgs) iis donutMap
           = Inr donutMap'"
    and "other \<noteq> sensorName"
  shows "donutMap' other = donutMap other"
  by (rule forEach_invariant [OF assms(1), where P = "\<lambda>m. m other = donutMap other"])
     (auto dest: roles_other_sensor [OF _ assms(2)])

lemma stars_other_star:
  assumes "forEach (starLoop sourProc nbr aFilter doDeb sensorName ids imgs) iis donutMap
           = Inr donutMap'"
    and "\<forall>j \<in> set iis. ids ! j \<noteq> sid"
  shows "entryOf donutMap' sensorName sid = entryOf donutMap sensorName sid"
proof (rule forEach_invariant [OF assms(1),
        where P = "\<lambda>m. entryOf m sensorName sid = entryOf donutMap sensorName sid"])
  show "entryOf donutMap sensorName sid = entryOf donutMap sensorName sid" ..
next
  fix j t t'
  assume j: "j \<in> set iis"
    and t: "entryOf t sensorName sid = entryOf donutMap sensorName sid"
    and step: "forEach (donutOfRole sourProc nbr aFilter doDeb sensorName ids imgs j) [0..<2] t
               = Inr t'"
  have "sid \<noteq> ids ! j" using assms(2) j by auto
  from roles_other_star [OF step this] t
  show "entryOf t' sensorName sid = entryOf donutMap sensorName sid" by simp
qed

lemma stars_same_star:
  assumes ret: "forEach (starLoop sourProc nbr aFilter doDeb sensorName ids [intra, extra])
                  [0..<length ids] donutMap = Inr donutMap'"
    and fresh: "donutMap sensorName = None"
    and dist: "distinct ids"
    and ii: "ii < length ids"
  shows "case (cutoutOf sourProc nbr aFilter doDeb sensorName intra ii,
               cutoutOf sourProc nbr aFilter doDeb sensorName extra ii) of
           (None, None) \<Rightarrow> entryOf donutMap' sensorName (ids ! ii) = None
         | (c0, c1) \<Rightarrow>
             (\<exists>e. entryOf donutMap' sensorName (ids ! ii) = Some e \<and> starId e = ids ! ii
                \<and> intraImg e = c0 \<and> extraImg e = c1
                \<and> Some (pixelX e, pixelY e)
                    = (case centerOf sourProc nbr aFilter doDeb sensorName intra ii of
                         None \<Rightarrow> centerOf sourProc nbr aFilter doDeb sensorName extra ii
                       | Some c \<Rightarrow> Some c))"
proof -
  let ?F = "starLoop sourProc nbr aFilter doDeb sensorName ids [intra, extra]"
  from ret obtain m1 m2 where
    before: "forEach ?F [0..<ii] donutMap = Inr m1"
    and at: "?F ii m1 = Inr m2"
    and after: "forEach ?F [Suc ii..<length ids] m2 = Inr donutMap'"
    unfolding upt_split [OF ii] forEach_append
    by (auto split: sum.splits)
  have "\<forall>j \<in> set [0..<ii]. ids ! j \<noteq> ids ! ii"
    using dist ii by (auto simp: nth_eq_iff_index_eq)
  from stars_other_star [OF before this] fresh
  have none: "entryOf m1 sensorName (ids ! ii) = None"
    by (simp add: entryOf_def)
  have "\<forall>j \<in> set [Suc ii..<length ids]. ids ! j \<noteq> ids ! ii"
    using dist ii by (auto simp: nth_eq_iff_index_eq)
  from stars_other_star [OF after this]
  have same: "entryOf m2 sensorName (ids ! ii) = entryOf donutMap' sensorName (ids ! ii)"
    by simp
  from roles_same_star [OF at none] show ?thesis
    unfolding same .
qed

lemma donutsOfSensor_other_sensor:
  assumes "donutsOfSensor sourProc neighborStarMap wfsImgMap aFilter doDeb sensorName donutMap
           = Inr donutMap'"
    and "other \<noteq> sensorName"
  shows "donutMap' other = donutMap other"
  using assms stars_other_sensor [OF _ assms(2)]
  by (auto simp: donutsOfSensor_def Let_def split: option.splits)

lemma sensors_other_sensor:
  assumes "forEach (donutsOfSensor sourProc neighborStarMap wfsImgMap aFilter doDeb) names
             donutMap = Inr donutMap'"
    and "other \<notin> set names"
  shows "donutMap' other = donutMap other"
proof (rule forEach_invariant [OF assms(1), where P = "\<lambda>m. m other = donutMap other"])
  show "donutMap other = donutMap other" ..
next
  fix x t t'
  assume "x \<in> set names" and t: "t other = donutMap other"
    and step: "donutsOfSensor sourProc neighborStarMap wfsImgMap aFilter doDeb x t = Inr t'"
  then have "other \<noteq> x" using assms(2) by auto
  from donutsOfSensor_other_sensor [OF step this] t show "t' other = donutMap other" by simp
qed

text \<open>
  What the donut map holds for a star: nothing when neither focal role produced a
  cutout, and otherwise one donut image with exactly the cutouts the two roles produced.
\<close>

lemma getDonutMap_entry:
  assumes ret: "getDonutMap sourProc neighborStarMap wfsImgMap aFilter doDeb = Inr donutMap"
    and sensors: "distinct (map fst wfsImgMap)"
    and sensor: "(sensorName, defocal) \<in> set wfsImgMap"
    and nbr: "neighborStarMap sensorName = Some nbr"
    and stars: "distinct (map fst (SimobjID nbr))"
    and ii: "ii < length (SimobjID nbr)"
  shows "case (cutoutOf sourProc nbr aFilter doDeb sensorName (intraImg defocal) ii,
               cutoutOf sourProc nbr aFilter doDeb sensorName (extraImg defocal) ii) of
           (None, None) \<Rightarrow> entryOf donutMap sensorName (fst (SimobjID nbr ! ii)) = None
         | (c0, c1) \<Rightarrow>
             (\<exists>e. entryOf donutMap sensorName (fst (SimobjID nbr ! ii)) = Some e
                \<and> starId e = fst (SimobjID nbr ! ii) \<and> intraImg e = c0 \<and> extraImg e = c1
                \<and> Some (pixelX e, pixelY e)
                    = (case centerOf sourProc nbr aFilter doDeb sensorName (intraImg defocal) ii of
                         None \<Rightarrow> centerOf sourProc nbr aFilter doDeb sensorName (extraImg defocal) ii
                       | Some c \<Rightarrow> Some c))"
proof -
  let ?G = "donutsOfSensor sourProc neighborStarMap wfsImgMap aFilter doDeb"
  let ?ids = "map fst (SimobjID nbr)"
  from sensor have "sensorName \<in> set (map fst wfsImgMap)" by force
  then obtain pre post where split: "map fst wfsImgMap = pre @ sensorName # post"
    by (auto dest: split_list)
  with sensors have notin: "sensorName \<notin> set pre" "sensorName \<notin> set post" by auto
  from ret obtain m1 m2 where
    before: "forEach ?G pre Map.empty = Inr m1"
    and at: "?G sensorName m1 = Inr m2"
    and after: "forEach ?G post m2 = Inr donutMap"
    unfolding getDonutMap_def split forEach_append
    by (auto split: sum.splits)
  from sensors_other_sensor [OF before notin(1)] have fresh: "m1 sensorName = None" by simp
  from sensors sensor have look: "map_of wfsImgMap sensorName = Some defocal" by simp
  from at nbr look have loop:
    "forEach (starLoop sourProc nbr aFilter doDeb sensorName ?ids
                [intraImg defocal, extraImg defocal]) [0..<length ?ids] m1 = Inr m2"
    by (simp add: donutsOfSensor_def Let_def)
  from ii have ii': "ii < length ?ids" by simp
  have e1: "?ids ! ii = fst (SimobjID nbr ! ii)" using ii by simp
  have e2: "entryOf m2 sensorName sid = entryOf donutMap sensorName sid" for sid
    using sensors_other_sensor [OF after notin(2)] by (simp add: entryOf_def)
  from stars_same_star [OF loop fresh stars ii'] show ?thesis
    unfolding e1 e2 .
qed

section \<open>Proofs: one step of the role loop\<close>

lemma deblendOrPass_pass:
  assumes "\<not> doDeb \<or> length (magRatio t) = 1"
    and "allStarPosX t = x # xs" "allStarPosY t = y # ys"
  shows "deblendOrPass sourProc doDeb t = Inr (Some (singleSciNeiImg t, x, y))"
  using assms by (auto simp: deblendOrPass_def)

lemma deblendOrPass_drop:
  assumes "doDeb" "length (magRatio t) \<noteq> 1" "length (magRatio t) \<noteq> 2"
  shows "deblendOrPass sourProc doDeb t = Inr None"
  using assms by (simp add: deblendOrPass_def)

lemma donutOfRole_put:
  assumes a1: "defocalImgList ! jj = Some ccdImg"
    and a2: "t = getSingleTargetImage sourProc (abbrevDectectorName sourProc sensorName) ccdImg nbr
               ii aFilter"
    and sel: "deblendOrPass sourProc doDeb t = Inr (Some (img, x, y))"
  shows "donutOfRole sourProc nbr aFilter doDeb sensorName simobjIdList defocalImgList ii jj
               donutMap
         = Inr (donutMap(sensorName \<mapsto> upsertDonut (setRole jj img)
                  (newDonutImage (simobjIdList ! ii) (x + offsetX t) (y + offsetY t))
                  (simobjIdList ! ii)
                  (case donutMap sensorName of None \<Rightarrow> [] | Some l \<Rightarrow> l)))"
  using sel unfolding a2 donutOfRole_def a1 Let_def
  by (simp add: putDonut_upsert)

lemma donutOfRole_skip:
  assumes a1: "defocalImgList ! jj = Some ccdImg"
    and a2: "t = getSingleTargetImage sourProc (abbrevDectectorName sourProc sensorName) ccdImg nbr
               ii aFilter"
    and sel: "deblendOrPass sourProc doDeb t = Inr None"
  shows "donutOfRole sourProc nbr aFilter doDeb sensorName simobjIdList defocalImgList ii jj
               donutMap = Inr donutMap"
  using sel unfolding a2 donutOfRole_def a1 Let_def
  by simp

lemma entryOf_upsert:
  "entryOf (donutMap(sensorName \<mapsto> upsertDonut (setRole jj img) (newDonutImage sid x y) sid
              (case donutMap sensorName of None \<Rightarrow> [] | Some l \<Rightarrow> l))) sensorName sid
   = Some (setRole jj img
            (case entryOf donutMap sensorName sid of None \<Rightarrow> newDonutImage sid x y | Some e \<Rightarrow> e))"
proof -
  have "find (\<lambda>d. starId d = sid)
          (upsertDonut (setRole jj img) (newDonutImage sid x y) sid
             (case donutMap sensorName of None \<Rightarrow> [] | Some l \<Rightarrow> l))
        = Some (setRole jj img
                 (case find (\<lambda>d. starId d = sid)
                         (case donutMap sensorName of None \<Rightarrow> [] | Some l \<Rightarrow> l) of
                    None \<Rightarrow> newDonutImage sid x y | Some e \<Rightarrow> e))"
    by (rule find_upsert_same) (simp_all add: starId_setRole starId_newDonutImage)
  then show ?thesis
    by (cases "donutMap sensorName") (simp_all add: entryOf_def)
qed

lemma setRole_fields:
  "jj = 0 \<Longrightarrow> intraImg (setRole jj img d) = Some img"
  "jj = 1 \<Longrightarrow> extraImg (setRole jj img d) = Some img"
  "pixelX (setRole jj img d) = pixelX d"
  "pixelY (setRole jj img d) = pixelY d"
  by (simp_all add: setRole_def setImg_def)

text \<open>
  One step of the role loop, from any donut map: with the defocal image of the role
  present and \<open>t\<close> the extraction, the raw cutout goes into the donut image of the star
  when deblending is disabled or one star lies in the cutout, and a donut image created
  by the step has the nominal position of the candidate as its center; the donut map is
  left as it is when deblending is enabled and the stars in the cutout are neither one nor
  two.
\<close>

lemma donutOfRole_pass_or_drop:
  assumes "defocalImgList ! jj = Some ccdImg"
    and "t = getSingleTargetImage sourProc (abbrevDectectorName sourProc sensorName) ccdImg nbr
               ii aFilter"
  shows "((\<not> doDeb \<or> length (magRatio t) = 1) \<and> allStarPosX t \<noteq> [] \<and> allStarPosY t \<noteq> [] \<longrightarrow>
            (\<exists>donutMap' e.
               donutOfRole sourProc nbr aFilter doDeb sensorName simobjIdList defocalImgList ii jj
                 donutMap = Inr donutMap'
               \<and> entryOf donutMap' sensorName (simobjIdList ! ii) = Some e
               \<and> (jj = 0 \<longrightarrow> intraImg e = Some (singleSciNeiImg t))
               \<and> (jj = 1 \<longrightarrow> extraImg e = Some (singleSciNeiImg t))
               \<and> (entryOf donutMap sensorName (simobjIdList ! ii) = None \<longrightarrow>
                    pixelX e = hd (allStarPosX t) + offsetX t
                    \<and> pixelY e = hd (allStarPosY t) + offsetY t)))
       \<and> (doDeb \<and> length (magRatio t) \<noteq> 1 \<and> length (magRatio t) \<noteq> 2 \<longrightarrow>
            donutOfRole sourProc nbr aFilter doDeb sensorName simobjIdList defocalImgList ii jj
              donutMap = Inr donutMap)"
proof (intro conjI impI)
  assume pass: "(\<not> doDeb \<or> length (magRatio t) = 1) \<and> allStarPosX t \<noteq> [] \<and> allStarPosY t \<noteq> []"
  then obtain x xs y ys where pos: "allStarPosX t = x # xs" "allStarPosY t = y # ys"
    by (auto simp: neq_Nil_conv)
  from pass have "\<not> doDeb \<or> length (magRatio t) = 1" by simp
  from deblendOrPass_pass [OF this pos]
  have sel: "deblendOrPass sourProc doDeb t = Inr (Some (singleSciNeiImg t, x, y))" .
  let ?sid = "simobjIdList ! ii"
  let ?e = "setRole jj (singleSciNeiImg t)
              (case entryOf donutMap sensorName ?sid of
                 None \<Rightarrow> newDonutImage ?sid (x + offsetX t) (y + offsetY t) | Some e \<Rightarrow> e)"
  note run = donutOfRole_put [OF assms sel, of simobjIdList donutMap]
  note ent = entryOf_upsert [of donutMap sensorName jj "singleSciNeiImg t" ?sid
      "x + offsetX t" "y + offsetY t"]
  have r0: "jj = 0 \<longrightarrow> intraImg ?e = Some (singleSciNeiImg t)"
    by (simp add: setRole_fields)
  have r1: "jj = 1 \<longrightarrow> extraImg ?e = Some (singleSciNeiImg t)"
    by (simp add: setRole_fields)
  have center: "entryOf donutMap sensorName ?sid = None \<longrightarrow>
              pixelX ?e = hd (allStarPosX t) + offsetX t
              \<and> pixelY ?e = hd (allStarPosY t) + offsetY t"
    using pos by (simp add: setRole_fields newDonutImage_def)
  show "\<exists>donutMap' e.
               donutOfRole sourProc nbr aFilter doDeb sensorName simobjIdList defocalImgList ii jj
                 donutMap = Inr donutMap'
               \<and> entryOf donutMap' sensorName (simobjIdList ! ii) = Some e
               \<and> (jj = 0 \<longrightarrow> intraImg e = Some (singleSciNeiImg t))
               \<and> (jj = 1 \<longrightarrow> extraImg e = Some (singleSciNeiImg t))
               \<and> (entryOf donutMap sensorName (simobjIdList ! ii) = None \<longrightarrow>
                    pixelX e = hd (allStarPosX t) + offsetX t
                    \<and> pixelY e = hd (allStarPosY t) + offsetY t)"
    by (intro exI conjI) (rule run, rule ent, rule r0, rule r1, rule center)
next
  assume "doDeb \<and> length (magRatio t) \<noteq> 1 \<and> length (magRatio t) \<noteq> 2"
  then have "deblendOrPass sourProc doDeb t = Inr None"
    by (simp add: deblendOrPass_drop)
  from donutOfRole_skip [OF assms this]
  show "donutOfRole sourProc nbr aFilter doDeb sensorName simobjIdList defocalImgList ii jj
               donutMap = Inr donutMap" .
qed

section \<open>Proofs: the cutouts of a star in the returned map\<close>

lemma getDonutMap_entry_none:
  assumes "getDonutMap sourProc neighborStarMap wfsImgMap aFilter doDeb = Inr donutMap"
    and "distinct (map fst wfsImgMap)"
    and "(sensorName, defocal) \<in> set wfsImgMap"
    and "neighborStarMap sensorName = Some nbr"
    and "distinct (map fst (SimobjID nbr))"
    and "ii < length (SimobjID nbr)"
    and "cutoutOf sourProc nbr aFilter doDeb sensorName (intraImg defocal) ii = None"
    and "cutoutOf sourProc nbr aFilter doDeb sensorName (extraImg defocal) ii = None"
  shows "entryOf donutMap sensorName (fst (SimobjID nbr ! ii)) = None"
  using getDonutMap_entry [OF assms(1-6)] unfolding assms(7,8) by simp

lemma getDonutMap_entry_some:
  assumes "getDonutMap sourProc neighborStarMap wfsImgMap aFilter doDeb = Inr donutMap"
    and "distinct (map fst wfsImgMap)"
    and "(sensorName, defocal) \<in> set wfsImgMap"
    and "neighborStarMap sensorName = Some nbr"
    and "distinct (map fst (SimobjID nbr))"
    and "ii < length (SimobjID nbr)"
    and "cutoutOf sourProc nbr aFilter doDeb sensorName (intraImg defocal) ii \<noteq> None
         \<or> cutoutOf sourProc nbr aFilter doDeb sensorName (extraImg defocal) ii \<noteq> None"
  shows "\<exists>e. entryOf donutMap sensorName (fst (SimobjID nbr ! ii)) = Some e
           \<and> starId e = fst (SimobjID nbr ! ii)
           \<and> intraImg e = cutoutOf sourProc nbr aFilter doDeb sensorName (intraImg defocal) ii
           \<and> extraImg e = cutoutOf sourProc nbr aFilter doDeb sensorName (extraImg defocal) ii
           \<and> Some (pixelX e, pixelY e)
               = (case centerOf sourProc nbr aFilter doDeb sensorName (intraImg defocal) ii of
                    None \<Rightarrow> centerOf sourProc nbr aFilter doDeb sensorName (extraImg defocal) ii
                  | Some c \<Rightarrow> Some c)"
proof (cases "cutoutOf sourProc nbr aFilter doDeb sensorName (intraImg defocal) ii")
  case None
  with assms(7) obtain c1 where
    c1: "cutoutOf sourProc nbr aFilter doDeb sensorName (extraImg defocal) ii = Some c1"
    by auto
  from getDonutMap_entry [OF assms(1-6)] show ?thesis
    unfolding None c1 by simp
next
  case (Some c0)
  from getDonutMap_entry [OF assms(1-6)] show ?thesis
    unfolding Some by (cases "cutoutOf sourProc nbr aFilter doDeb sensorName (extraImg defocal) ii")
      simp_all
qed

lemma cutoutOf_pass:
  assumes "defocalImg = Some ccdImg"
    and "t = getSingleTargetImage sourProc (abbrevDectectorName sourProc sensorName) ccdImg nbr
               ii aFilter"
    and "\<not> doDeb \<or> length (magRatio t) = 1"
    and "allStarPosX t \<noteq> []" "allStarPosY t \<noteq> []"
  shows "cutoutOf sourProc nbr aFilter doDeb sensorName defocalImg ii = Some (singleSciNeiImg t)"
    and "centerOf sourProc nbr aFilter doDeb sensorName defocalImg ii
         = Some (hd (allStarPosX t) + offsetX t, hd (allStarPosY t) + offsetY t)"
proof -
  from assms(4,5) obtain x xs y ys where pos: "allStarPosX t = x # xs" "allStarPosY t = y # ys"
    by (auto simp: neq_Nil_conv)
  note sel = deblendOrPass_pass [OF assms(3) pos, of sourProc]
  show "cutoutOf sourProc nbr aFilter doDeb sensorName defocalImg ii = Some (singleSciNeiImg t)"
    using sel unfolding assms(2) cutoutOf_def assms(1) by simp
  show "centerOf sourProc nbr aFilter doDeb sensorName defocalImg ii
         = Some (hd (allStarPosX t) + offsetX t, hd (allStarPosY t) + offsetY t)"
    using sel pos unfolding assms(2) centerOf_def assms(1) Let_def by simp
qed

lemma cutoutOf_drop:
  assumes "defocalImg = Some ccdImg"
    and "t = getSingleTargetImage sourProc (abbrevDectectorName sourProc sensorName) ccdImg nbr
               ii aFilter"
    and "doDeb" "length (magRatio t) \<noteq> 1" "length (magRatio t) \<noteq> 2"
  shows "cutoutOf sourProc nbr aFilter doDeb sensorName defocalImg ii = None"
proof -
  note sel = deblendOrPass_drop [OF assms(3-5), of sourProc]
  show ?thesis
    using sel unfolding assms(2) cutoutOf_def assms(1) by simp
qed

lemma cutoutOf_no_image: "cutoutOf sourProc nbr aFilter doDeb sensorName None ii = None"
  by (simp add: cutoutOf_def)

lemma centerOf_no_image: "centerOf sourProc nbr aFilter doDeb sensorName None ii = None"
  by (simp add: centerOf_def)


section \<open>Proofs: the donut map is returned\<close>

lemma forEach_returns:
  assumes "\<And>x s. x \<in> set xs \<Longrightarrow> \<exists>s'. body x s = Inr s'"
  shows "\<exists>s'. forEach body xs s = Inr s'"
  using assms
proof (induction xs arbitrary: s)
  case Nil
  then show ?case by simp
next
  case (Cons x xs)
  from Cons.prems [of x s] obtain t where t: "body x s = Inr t" by auto
  have "\<exists>s'. forEach body xs t = Inr s'"
    by (rule Cons.IH) (simp add: Cons.prems)
  with t show ?case by simp
qed

lemma deblendOrPass_returns:
  assumes "allStarPosX t \<noteq> []" "allStarPosY t \<noteq> []"
  shows "\<exists>r. deblendOrPass sourProc doDeb t = Inr r"
  using assms
  by (auto simp: deblendOrPass_def split: list.splits prod.splits option.splits)

lemma donutOfRole_returns:
  assumes "\<forall>configured ccdImg ii.
             allStarPosX (getSingleTargetImage sourProc configured ccdImg nbr ii aFilter) \<noteq> []
             \<and> allStarPosY (getSingleTargetImage sourProc configured ccdImg nbr ii aFilter) \<noteq> []"
  shows "\<exists>donutMap'. donutOfRole sourProc nbr aFilter doDeb sensorName ids imgs ii jj donutMap
                       = Inr donutMap'"
proof (cases "imgs ! jj")
  case None
  then show ?thesis by (simp add: donutOfRole_def)
next
  case (Some ccdImg)
  let ?t = "getSingleTargetImage sourProc (abbrevDectectorName sourProc sensorName) ccdImg nbr
              ii aFilter"
  from assms have "allStarPosX ?t \<noteq> []" "allStarPosY ?t \<noteq> []" by simp_all
  from deblendOrPass_returns [OF this] obtain r where
    r: "deblendOrPass sourProc doDeb ?t = Inr r" by blast
  show ?thesis
  proof (cases r)
    case None
    with r Some show ?thesis by (simp add: donutOfRole_def Let_def)
  next
    case (Some c)
    with r \<open>imgs ! jj = Some ccdImg\<close> show ?thesis
      by (cases c) (simp add: donutOfRole_def Let_def putDonut_upsert)
  qed
qed

lemma donutsOfSensor_returns:
  assumes "neighborStarMap sensorName = Some nbr"
    and "sensorName \<in> fst ` set wfsImgMap"
    and "\<forall>configured ccdImg ii.
             allStarPosX (getSingleTargetImage sourProc configured ccdImg nbr ii aFilter) \<noteq> []
             \<and> allStarPosY (getSingleTargetImage sourProc configured ccdImg nbr ii aFilter) \<noteq> []"
  shows "\<exists>donutMap'. donutsOfSensor sourProc neighborStarMap wfsImgMap aFilter doDeb sensorName
                        donutMap = Inr donutMap'"
proof -
  from assms(2) obtain defocal where look: "map_of wfsImgMap sensorName = Some defocal"
    by (metis domD dom_map_of_conv_image_fst)
  have "\<exists>m'. forEach (starLoop sourProc nbr aFilter doDeb sensorName ids imgs) iis m = Inr m'"
    for ids imgs iis m
    by (rule forEach_returns, rule forEach_returns, rule donutOfRole_returns [OF assms(3)])
  with assms(1) look show ?thesis
    by (simp add: donutsOfSensor_def Let_def)
qed

lemma getDonutMap_returns:
  assumes "\<forall>sensorName \<in> fst ` set wfsImgMap. \<exists>nbr. neighborStarMap sensorName = Some nbr
             \<and> (\<forall>configured ccdImg ii.
                   allStarPosX (getSingleTargetImage sourProc configured ccdImg nbr ii aFilter) \<noteq> []
                   \<and> allStarPosY (getSingleTargetImage sourProc configured ccdImg nbr ii aFilter)
                       \<noteq> [])"
  shows "\<exists>donutMap. getDonutMap sourProc neighborStarMap wfsImgMap aFilter doDeb = Inr donutMap"
  unfolding getDonutMap_def
proof (rule forEach_returns)
  fix sensorName s
  assume "sensorName \<in> set (map fst wfsImgMap)"
  then have mem: "sensorName \<in> fst ` set wfsImgMap" by simp
  with assms obtain nbr where nbr: "neighborStarMap sensorName = Some nbr"
    and pos: "\<forall>configured ccdImg ii.
                allStarPosX (getSingleTargetImage sourProc configured ccdImg nbr ii aFilter) \<noteq> []
                \<and> allStarPosY (getSingleTargetImage sourProc configured ccdImg nbr ii aFilter) \<noteq> []"
    by blast
  show "\<exists>s'. donutsOfSensor sourProc neighborStarMap wfsImgMap aFilter doDeb sensorName s = Inr s'"
    using nbr mem pos by (rule donutsOfSensor_returns)
qed

section \<open>Proofs: one donut image for each star\<close>

lemma distinct_upsert:
  assumes "distinct (map starId l)"
  shows "distinct (map starId (upsertDonut (setRole jj img) (newDonutImage sid x y) sid l))"
  using assms
  by (simp add: map_starId_upsert starId_setRole starId_newDonutImage)

lemma donutOfRole_distinct:
  assumes "donutOfRole sourProc nbr aFilter doDeb sensorName ids imgs ii jj donutMap
           = Inr donutMap'"
    and "oneEntryPerStar donutMap"
  shows "oneEntryPerStar donutMap'"
proof (cases "cutoutOf sourProc nbr aFilter doDeb sensorName (imgs ! jj) ii")
  case None
  with donutOfRole_cases [OF assms(1)] assms(2) show ?thesis by simp
next
  case (Some img)
  with donutOfRole_cases [OF assms(1)] obtain x y where
    m: "donutMap' = donutMap(sensorName \<mapsto>
          upsertDonut (setRole jj img) (newDonutImage (ids ! ii) x y) (ids ! ii)
            (case donutMap sensorName of None \<Rightarrow> [] | Some l \<Rightarrow> l))"
    by auto
  have "distinct (map starId (case donutMap sensorName of None \<Rightarrow> [] | Some l \<Rightarrow> l))"
    using assms(2) by (auto simp: oneEntryPerStar_def split: option.splits)
  from distinct_upsert [OF this] assms(2) show ?thesis
    unfolding m oneEntryPerStar_def by (simp del: map_map)
qed

lemma getDonutMap_distinct:
  assumes "getDonutMap sourProc neighborStarMap wfsImgMap aFilter doDeb = Inr donutMap"
  shows "oneEntryPerStar donutMap"
proof -
  have roles: "oneEntryPerStar m'"
    if "forEach (donutOfRole sourProc nbr aFilter doDeb sensorName ids imgs ii) jjs m = Inr m'"
      and "oneEntryPerStar m" for nbr sensorName ids imgs ii jjs m m'
    by (rule forEach_invariant [OF that(1), where P = oneEntryPerStar, OF that(2)])
       (rule donutOfRole_distinct)
  have stars: "oneEntryPerStar m'"
    if "forEach (starLoop sourProc nbr aFilter doDeb sensorName ids imgs) iis m = Inr m'"
      and "oneEntryPerStar m" for nbr sensorName ids imgs iis m m'
    by (rule forEach_invariant [OF that(1), where P = oneEntryPerStar, OF that(2)])
       (rule roles)
  have sensor: "oneEntryPerStar m'"
    if "donutsOfSensor sourProc neighborStarMap wfsImgMap aFilter doDeb sensorName m = Inr m'"
      and "oneEntryPerStar m" for sensorName m m'
    using that stars
    by (auto simp: donutsOfSensor_def Let_def split: option.splits)
  have "oneEntryPerStar (Map.empty :: 'a donutMap)"
    by (simp add: oneEntryPerStar_def)
  from forEach_invariant [OF assms [unfolded getDonutMap_def], where P = oneEntryPerStar, OF this]
  show ?thesis using sensor by blast
qed

lemma find_distinct_filter:
  assumes "distinct (map f l)" "find (\<lambda>d. f d = k) l = Some e"
  shows "filter (\<lambda>d. f d = k) l = [e]"
  using assms
proof (induction l)
  case Nil
  then show ?case by simp
next
  case (Cons d l)
  show ?case
  proof (cases "f d = k")
    case True
    with Cons.prems have "e = d" "k \<notin> f ` set l" by auto
    then have "filter (\<lambda>d. f d = k) l = []" by (auto simp: filter_empty_conv)
    with True \<open>e = d\<close> show ?thesis by simp
  next
    case False
    with Cons show ?thesis by simp
  qed
qed


lemma getDonutMap_single_entry:
  assumes ret: "getDonutMap sourProc neighborStarMap wfsImgMap aFilter doDeb = Inr donutMap"
    and ent: "entryOf donutMap sensorName sid = Some e"
  shows "\<exists>donutList. donutMap sensorName = Some donutList
           \<and> filter (\<lambda>d. starId d = sid) donutList = [e]"
proof -
  from ent obtain donutList where l: "donutMap sensorName = Some donutList"
    and f: "find (\<lambda>d. starId d = sid) donutList = Some e"
    by (auto simp: entryOf_def split: option.splits)
  from getDonutMap_distinct [OF ret] l have "distinct (map starId donutList)"
    by (simp add: oneEntryPerStar_def)
  from find_distinct_filter [OF this f] l show ?thesis by simp
qed

section \<open>Proofs: the claims on the donut map\<close>

lemmas example_defs = exampleProcessor_def crowdedCutout_def singleCutout_def
  exampleNeighborStarMap_def bothImages_def intraOnly_def exampleStars_def

lemmas donut_defs = getDonutMap_def donutsOfSensor_def donutOfRole_def deblendOrPass_def
  putDonut_def searchDonutListId_def updateAt_def setRole_def setImg_def newDonutImage_def
  entryOf_def cutoutOf_def Let_def upt_conv_Cons

text \<open>
  C1, as amended: for the star \<open>ii\<close> of a detector and a focal role \<open>jj\<close> whose defocal
  image is present, with \<open>t\<close> the extraction of \<open>getSingleTargetImage\<close>, in every donut
  map that \<open>getDonutMap\<close> returns. When deblending is disabled, or when exactly one star
  lies in the cutout, the star has a donut image that holds the raw cutout
  \<open>singleSciNeiImg\<close> as the image of the role; its center is the candidate's nominal
  position, \<open>allStarPosX[0]\<close> and \<open>allStarPosY[0]\<close> moved by the offset of the cutout,
  for the intra-focal role, and for the extra-focal role when there is no intra-focal
  image (the center is set when the donut image is created). When deblending is enabled
  and the number of stars in the cutout is neither one nor two (more than two in
  particular), no image is made: a donut image of the star has no image of that role, and
  the star has no donut image at all when the other defocal image is \<open>None\<close>. The call
  returns when every detector of the image map is in the neighboring-star map and the
  extraction always reports the position of the candidate.
\<close>

theorem getDonutMap_pass_or_drop:
  assumes sensors: "distinct (map fst wfsImgMap)"
    and sensor: "(sensorName, defocal) \<in> set wfsImgMap"
    and nbr: "neighborStarMap sensorName = Some nbr"
    and stars: "distinct (map fst (SimobjID nbr))"
    and ii: "ii < length (SimobjID nbr)"
    and jj: "jj < 2"
    and img: "[intraImg defocal, extraImg defocal] ! jj = Some ccdImg"
    and t: "t = getSingleTargetImage sourProc (abbrevDectectorName sourProc sensorName) ccdImg nbr
                  ii aFilter"
  shows "(\<forall>donutMap. getDonutMap sourProc neighborStarMap wfsImgMap aFilter doDeb = Inr donutMap \<longrightarrow>
            ((\<not> doDeb \<or> length (magRatio t) = 1) \<and> allStarPosX t \<noteq> [] \<and> allStarPosY t \<noteq> [] \<longrightarrow>
               (\<exists>e. entryOf donutMap sensorName (fst (SimobjID nbr ! ii)) = Some e
                  \<and> [intraImg e, extraImg e] ! jj = Some (singleSciNeiImg t)
                  \<and> (jj = 0 \<or> intraImg defocal = None \<longrightarrow>
                       pixelX e = hd (allStarPosX t) + offsetX t
                       \<and> pixelY e = hd (allStarPosY t) + offsetY t)))
            \<and> (doDeb \<and> length (magRatio t) \<noteq> 1 \<and> length (magRatio t) \<noteq> 2 \<longrightarrow>
                 (\<forall>e. entryOf donutMap sensorName (fst (SimobjID nbr ! ii)) = Some e \<longrightarrow>
                        [intraImg e, extraImg e] ! jj = None)
                 \<and> ([intraImg defocal, extraImg defocal] ! (1 - jj) = None \<longrightarrow>
                      entryOf donutMap sensorName (fst (SimobjID nbr ! ii)) = None)))
       \<and> ((\<forall>sensorName \<in> fst ` set wfsImgMap. \<exists>nbr. neighborStarMap sensorName = Some nbr
             \<and> (\<forall>configured ccdImg ii.
                   allStarPosX (getSingleTargetImage sourProc configured ccdImg nbr ii aFilter) \<noteq> []
                   \<and> allStarPosY (getSingleTargetImage sourProc configured ccdImg nbr ii aFilter)
                       \<noteq> [])) \<longrightarrow>
            (\<exists>donutMap. getDonutMap sourProc neighborStarMap wfsImgMap aFilter doDeb
                          = Inr donutMap))"
proof (intro conjI allI impI)
  fix donutMap
  assume ret: "getDonutMap sourProc neighborStarMap wfsImgMap aFilter doDeb = Inr donutMap"
    and pass: "(\<not> doDeb \<or> length (magRatio t) = 1) \<and> allStarPosX t \<noteq> [] \<and> allStarPosY t \<noteq> []"
  let ?sid = "fst (SimobjID nbr ! ii)"
  let ?c0 = "cutoutOf sourProc nbr aFilter doDeb sensorName (intraImg defocal) ii"
  let ?c1 = "cutoutOf sourProc nbr aFilter doDeb sensorName (extraImg defocal) ii"
  let ?nominal = "(hd (allStarPosX t) + offsetX t, hd (allStarPosY t) + offsetY t)"
  from pass have p1: "\<not> doDeb \<or> length (magRatio t) = 1"
    and p2: "allStarPosX t \<noteq> []" and p3: "allStarPosY t \<noteq> []" by simp_all
  from jj have "jj = 0 \<or> jj = 1" by auto
  then show "\<exists>e. entryOf donutMap sensorName ?sid = Some e
                  \<and> [intraImg e, extraImg e] ! jj = Some (singleSciNeiImg t)
                  \<and> (jj = 0 \<or> intraImg defocal = None \<longrightarrow>
                       pixelX e = hd (allStarPosX t) + offsetX t
                       \<and> pixelY e = hd (allStarPosY t) + offsetY t)"
  proof
    assume j0: "jj = 0"
    with img have i0: "intraImg defocal = Some ccdImg" by simp
    note c = cutoutOf_pass [OF i0 t p1 p2 p3]
    from c(1) have "?c0 \<noteq> None \<or> ?c1 \<noteq> None" by simp
    from getDonutMap_entry_some [OF ret sensors sensor nbr stars ii this]
    obtain e where e: "entryOf donutMap sensorName ?sid = Some e"
      and i: "intraImg e = ?c0"
      and p: "Some (pixelX e, pixelY e)
               = (case centerOf sourProc nbr aFilter doDeb sensorName (intraImg defocal) ii of
                    None \<Rightarrow> centerOf sourProc nbr aFilter doDeb sensorName (extraImg defocal) ii
                  | Some c \<Rightarrow> Some c)"
      by blast
    from p have "pixelX e = fst ?nominal \<and> pixelY e = snd ?nominal"
      unfolding c(2) by simp
    with e i c(1) j0 show ?thesis by simp
  next
    assume j1: "jj = 1"
    with img have i1: "extraImg defocal = Some ccdImg" by simp
    note c = cutoutOf_pass [OF i1 t p1 p2 p3]
    from c(1) have "?c0 \<noteq> None \<or> ?c1 \<noteq> None" by simp
    from getDonutMap_entry_some [OF ret sensors sensor nbr stars ii this]
    obtain e where e: "entryOf donutMap sensorName ?sid = Some e"
      and i: "extraImg e = ?c1"
      and p: "Some (pixelX e, pixelY e)
               = (case centerOf sourProc nbr aFilter doDeb sensorName (intraImg defocal) ii of
                    None \<Rightarrow> centerOf sourProc nbr aFilter doDeb sensorName (extraImg defocal) ii
                  | Some c \<Rightarrow> Some c)"
      by blast
    have "pixelX e = fst ?nominal \<and> pixelY e = snd ?nominal" if "intraImg defocal = None"
      using p unfolding that centerOf_no_image c(2) by simp
    with e i c(1) j1 show ?thesis by simp
  qed
next
  fix donutMap e
  assume ret: "getDonutMap sourProc neighborStarMap wfsImgMap aFilter doDeb = Inr donutMap"
    and drop: "doDeb \<and> length (magRatio t) \<noteq> 1 \<and> length (magRatio t) \<noteq> 2"
    and e: "entryOf donutMap sensorName (fst (SimobjID nbr ! ii)) = Some e"
  let ?c0 = "cutoutOf sourProc nbr aFilter doDeb sensorName (intraImg defocal) ii"
  let ?c1 = "cutoutOf sourProc nbr aFilter doDeb sensorName (extraImg defocal) ii"
  from drop have d1: "doDeb" and d2: "length (magRatio t) \<noteq> 1" and d3: "length (magRatio t) \<noteq> 2"
    by simp_all
  have some: "?c0 \<noteq> None \<or> ?c1 \<noteq> None"
  proof (rule ccontr)
    assume "\<not> (?c0 \<noteq> None \<or> ?c1 \<noteq> None)"
    then have "?c0 = None" "?c1 = None" by simp_all
    from getDonutMap_entry_none [OF ret sensors sensor nbr stars ii this] e
    show False by simp
  qed
  from getDonutMap_entry_some [OF ret sensors sensor nbr stars ii some] e
  have fields: "intraImg e = ?c0" "extraImg e = ?c1" by auto
  from jj have "jj = 0 \<or> jj = 1" by auto
  then show "[intraImg e, extraImg e] ! jj = None"
  proof
    assume j0: "jj = 0"
    with img have i0: "intraImg defocal = Some ccdImg" by simp
    from cutoutOf_drop [OF i0 t d1 d2 d3] fields j0 show ?thesis by simp
  next
    assume j1: "jj = 1"
    with img have i1: "extraImg defocal = Some ccdImg" by simp
    from cutoutOf_drop [OF i1 t d1 d2 d3] fields j1 show ?thesis by simp
  qed
next
  fix donutMap
  assume ret: "getDonutMap sourProc neighborStarMap wfsImgMap aFilter doDeb = Inr donutMap"
    and drop: "doDeb \<and> length (magRatio t) \<noteq> 1 \<and> length (magRatio t) \<noteq> 2"
    and other: "[intraImg defocal, extraImg defocal] ! (1 - jj) = None"
  from drop have d1: "doDeb" and d2: "length (magRatio t) \<noteq> 1" and d3: "length (magRatio t) \<noteq> 2"
    by simp_all
  from jj have "jj = 0 \<or> jj = 1" by auto
  then have "cutoutOf sourProc nbr aFilter doDeb sensorName (intraImg defocal) ii = None
             \<and> cutoutOf sourProc nbr aFilter doDeb sensorName (extraImg defocal) ii = None"
  proof
    assume j0: "jj = 0"
    with img other have i0: "intraImg defocal = Some ccdImg" and i1: "extraImg defocal = None"
      by simp_all
    from cutoutOf_drop [OF i0 t d1 d2 d3] show ?thesis
      unfolding i1 by (simp add: cutoutOf_no_image)
  next
    assume j1: "jj = 1"
    with img other have i1: "extraImg defocal = Some ccdImg" and i0: "intraImg defocal = None"
      by simp_all
    from cutoutOf_drop [OF i1 t d1 d2 d3] show ?thesis
      unfolding i0 by (simp add: cutoutOf_no_image)
  qed
  then show "entryOf donutMap sensorName (fst (SimobjID nbr ! ii)) = None"
    using getDonutMap_entry_none [OF ret sensors sensor nbr stars ii] by blast
next
  assume "\<forall>sensorName \<in> fst ` set wfsImgMap. \<exists>nbr. neighborStarMap sensorName = Some nbr
             \<and> (\<forall>configured ccdImg ii.
                   allStarPosX (getSingleTargetImage sourProc configured ccdImg nbr ii aFilter) \<noteq> []
                   \<and> allStarPosY (getSingleTargetImage sourProc configured ccdImg nbr ii aFilter)
                       \<noteq> [])"
  then show "\<exists>donutMap. getDonutMap sourProc neighborStarMap wfsImgMap aFilter doDeb = Inr donutMap"
    by (rule getDonutMap_returns)
qed


theorem getDonutMap_pass_or_drop_witness:
  "(\<exists>donutMap e.
      getDonutMap (exampleProcessor singleCutout) exampleNeighborStarMap bothImages ''g'' True
        = Inr donutMap
      \<and> entryOf donutMap ''R:2,2 S:1,1'' 523572575 = Some e
      \<and> intraImg e = Some ''cutout of intra'' \<and> pixelX e = 110 \<and> pixelY e = 215)
   \<and> (\<exists>donutMap.
        getDonutMap (exampleProcessor crowdedCutout) exampleNeighborStarMap intraOnly ''g'' True
          = Inr donutMap
        \<and> entryOf donutMap ''R:2,2 S:1,1'' 523572575 = None)"
proof -
  have nbr: "exampleNeighborStarMap ''R:2,2 S:1,1'' = Some exampleStars"
    by (simp add: exampleNeighborStarMap_def)
  have stars: "distinct (map fst (SimobjID exampleStars))"
    by (simp add: exampleStars_def)
  have ii: "0 < length (SimobjID exampleStars)"
    by (simp add: exampleStars_def)
  have jj: "(0 :: nat) < 2"
    by simp
  have sensors1: "distinct (map fst bothImages)"
    by (simp add: bothImages_def)
  have sensor1: "(''R:2,2 S:1,1'', \<lparr>intraImg = Some ''intra'', extraImg = Some ''extra''\<rparr>)
                 \<in> set bothImages"
    by (simp add: bothImages_def)
  have img1: "[intraImg \<lparr>intraImg = Some ''intra'', extraImg = Some ''extra''\<rparr>,
               extraImg \<lparr>intraImg = Some ''intra'', extraImg = Some ''extra''\<rparr>] ! 0
              = Some ''intra''"
    by simp
  have t1: "singleCutout\<lparr>singleSciNeiImg := ''cutout of intra''\<rparr>
            = getSingleTargetImage (exampleProcessor singleCutout)
                (abbrevDectectorName (exampleProcessor singleCutout) ''R:2,2 S:1,1'') ''intra''
                exampleStars 0 ''g''"
    by (simp add: exampleProcessor_def)
  have ret1: "getDonutMap (exampleProcessor singleCutout) exampleNeighborStarMap bothImages ''g''
                True
              = Inr [''R:2,2 S:1,1'' \<mapsto>
                  [\<lparr>intraImg = Some ''cutout of intra'', extraImg = Some ''cutout of extra'',
                    starId = 523572575, pixelX = 110, pixelY = 215\<rparr>]]"
    by (simp add: example_defs donut_defs)
  have sensors2: "distinct (map fst intraOnly)"
    by (simp add: intraOnly_def)
  have sensor2: "(''R:2,2 S:1,1'', \<lparr>intraImg = Some ''intra'', extraImg = None\<rparr>) \<in> set intraOnly"
    by (simp add: intraOnly_def)
  have img2: "[intraImg \<lparr>intraImg = Some ''intra'', extraImg = None\<rparr>,
               extraImg \<lparr>intraImg = Some ''intra'', extraImg = (None :: string option)\<rparr>] ! 0
              = Some ''intra''"
    by simp
  have t2: "crowdedCutout\<lparr>singleSciNeiImg := ''cutout of intra''\<rparr>
            = getSingleTargetImage (exampleProcessor crowdedCutout)
                (abbrevDectectorName (exampleProcessor crowdedCutout) ''R:2,2 S:1,1'') ''intra''
                exampleStars 0 ''g''"
    by (simp add: exampleProcessor_def)
  have ret2: "getDonutMap (exampleProcessor crowdedCutout) exampleNeighborStarMap intraOnly ''g''
                True = Inr Map.empty"
    by (simp add: example_defs donut_defs)
  from getDonutMap_pass_or_drop [where wfsImgMap = bothImages and sensorName = "''R:2,2 S:1,1''"
         and defocal = "\<lparr>intraImg = Some ''intra'', extraImg = Some ''extra''\<rparr>"
         and neighborStarMap = exampleNeighborStarMap and nbr = exampleStars and ii = 0
         and jj = 0 and ccdImg = "''intra''"
         and t = "singleCutout\<lparr>singleSciNeiImg := ''cutout of intra''\<rparr>"
         and sourProc = "exampleProcessor singleCutout" and aFilter = "''g''" and doDeb = True,
         OF sensors1 sensor1 nbr stars ii jj img1 t1]
       getDonutMap_pass_or_drop [where wfsImgMap = intraOnly and sensorName = "''R:2,2 S:1,1''"
         and defocal = "\<lparr>intraImg = Some ''intra'', extraImg = None\<rparr>"
         and neighborStarMap = exampleNeighborStarMap and nbr = exampleStars and ii = 0
         and jj = 0 and ccdImg = "''intra''"
         and t = "crowdedCutout\<lparr>singleSciNeiImg := ''cutout of intra''\<rparr>"
         and sourProc = "exampleProcessor crowdedCutout" and aFilter = "''g''" and doDeb = True,
         OF sensors2 sensor2 nbr stars ii jj img2 t2]
       ret1 ret2
  show ?thesis
    by (simp add: singleCutout_def crowdedCutout_def exampleStars_def entryOf_def)
qed

text \<open>
  The claim as worded fails on its last part: with deblending enabled and three stars in
  the cutout, the candidate star gets no donut image at all, although both defocal
  images are present.
\<close>

theorem getDonutMap_crowded_star_dropped:
  "length (magRatio crowdedCutout) = 3
   \<and> getDonutMap (exampleProcessor crowdedCutout) exampleNeighborStarMap bothImages ''g'' True
       = Inr Map.empty"
  by (simp add: example_defs donut_defs)

text \<open>
  C3: in every donut map that \<open>getDonutMap\<close> returns, the star identifiers of the
  donut images of a detector are pairwise different, so a star owns at most one donut
  image there; and for the star \<open>ii\<close> of a detector whose intra-focal and extra-focal
  images both give a cutout, the donut images of the detector with the identifier of the
  star are exactly one, which holds both cutouts. The donut image is found by the star
  identifier alone, whatever positions the extraction reports. The dictionaries have
  distinct keys. The call returns when every detector of the image map is in the
  neighboring-star map and the extraction always reports the position of the candidate.
\<close>

theorem getDonutMap_one_entry_per_star:
  assumes sensors: "distinct (map fst wfsImgMap)"
    and stars: "\<forall>nbr \<in> ran neighborStarMap. distinct (map fst (SimobjID nbr))"
  shows "(\<forall>donutMap. getDonutMap sourProc neighborStarMap wfsImgMap aFilter doDeb = Inr donutMap \<longrightarrow>
            (\<forall>sensorName donutList. donutMap sensorName = Some donutList \<longrightarrow>
               distinct (map starId donutList))
            \<and> (\<forall>sensorName defocal nbr ii c0 c1.
                 (sensorName, defocal) \<in> set wfsImgMap \<and> neighborStarMap sensorName = Some nbr
                 \<and> ii < length (SimobjID nbr)
                 \<and> cutoutOf sourProc nbr aFilter doDeb sensorName (intraImg defocal) ii = Some c0
                 \<and> cutoutOf sourProc nbr aFilter doDeb sensorName (extraImg defocal) ii = Some c1 \<longrightarrow>
                 (\<exists>donutList e. donutMap sensorName = Some donutList
                    \<and> filter (\<lambda>d. starId d = fst (SimobjID nbr ! ii)) donutList = [e]
                    \<and> intraImg e = Some c0 \<and> extraImg e = Some c1)))
       \<and> ((\<forall>sensorName \<in> fst ` set wfsImgMap. \<exists>nbr. neighborStarMap sensorName = Some nbr
             \<and> (\<forall>configured ccdImg ii.
                   allStarPosX (getSingleTargetImage sourProc configured ccdImg nbr ii aFilter) \<noteq> []
                   \<and> allStarPosY (getSingleTargetImage sourProc configured ccdImg nbr ii aFilter)
                       \<noteq> [])) \<longrightarrow>
            (\<exists>donutMap. getDonutMap sourProc neighborStarMap wfsImgMap aFilter doDeb
                          = Inr donutMap))"
proof (intro conjI allI impI)
  fix donutMap sensorName donutList
  assume "getDonutMap sourProc neighborStarMap wfsImgMap aFilter doDeb = Inr donutMap"
    and "donutMap sensorName = Some donutList"
  with getDonutMap_distinct show "distinct (map starId donutList)"
    unfolding oneEntryPerStar_def by blast
next
  fix donutMap sensorName defocal nbr ii c0 c1
  assume ret: "getDonutMap sourProc neighborStarMap wfsImgMap aFilter doDeb = Inr donutMap"
    and a: "(sensorName, defocal) \<in> set wfsImgMap \<and> neighborStarMap sensorName = Some nbr
                 \<and> ii < length (SimobjID nbr)
                 \<and> cutoutOf sourProc nbr aFilter doDeb sensorName (intraImg defocal) ii = Some c0
                 \<and> cutoutOf sourProc nbr aFilter doDeb sensorName (extraImg defocal) ii = Some c1"
  then have sensor: "(sensorName, defocal) \<in> set wfsImgMap"
    and nbr: "neighborStarMap sensorName = Some nbr"
    and ii: "ii < length (SimobjID nbr)"
    and c0: "cutoutOf sourProc nbr aFilter doDeb sensorName (intraImg defocal) ii = Some c0"
    and c1: "cutoutOf sourProc nbr aFilter doDeb sensorName (extraImg defocal) ii = Some c1"
    by simp_all
  from nbr stars have dist: "distinct (map fst (SimobjID nbr))"
    by (auto simp: ran_def)
  from getDonutMap_entry [OF ret sensors sensor nbr dist ii]
  obtain e where e: "entryOf donutMap sensorName (fst (SimobjID nbr ! ii)) = Some e"
    and imgs: "intraImg e = Some c0" "extraImg e = Some c1"
    unfolding c0 c1 by auto
  from getDonutMap_single_entry [OF ret e] imgs
  show "\<exists>donutList e. donutMap sensorName = Some donutList
                    \<and> filter (\<lambda>d. starId d = fst (SimobjID nbr ! ii)) donutList = [e]
                    \<and> intraImg e = Some c0 \<and> extraImg e = Some c1"
    by blast
next
  assume "\<forall>sensorName \<in> fst ` set wfsImgMap. \<exists>nbr. neighborStarMap sensorName = Some nbr
             \<and> (\<forall>configured ccdImg ii.
                   allStarPosX (getSingleTargetImage sourProc configured ccdImg nbr ii aFilter) \<noteq> []
                   \<and> allStarPosY (getSingleTargetImage sourProc configured ccdImg nbr ii aFilter)
                       \<noteq> [])"
  then show "\<exists>donutMap. getDonutMap sourProc neighborStarMap wfsImgMap aFilter doDeb = Inr donutMap"
    by (rule getDonutMap_returns)
qed

theorem getDonutMap_one_entry_per_star_witness:
  "\<exists>donutMap donutList e.
     getDonutMap (exampleProcessor singleCutout) exampleNeighborStarMap bothImages ''g'' False
       = Inr donutMap
     \<and> donutMap ''R:2,2 S:1,1'' = Some donutList
     \<and> distinct (map starId donutList)
     \<and> filter (\<lambda>d. starId d = 523572575) donutList = [e]
     \<and> intraImg e = Some ''cutout of intra'' \<and> extraImg e = Some ''cutout of extra''"
proof -
  have sensors: "distinct (map fst bothImages)"
    by (simp add: bothImages_def)
  have stars: "\<forall>nbr \<in> ran exampleNeighborStarMap. distinct (map fst (SimobjID nbr))"
    by (simp add: exampleNeighborStarMap_def exampleStars_def)
  have ret: "getDonutMap (exampleProcessor singleCutout) exampleNeighborStarMap bothImages ''g''
               False
             = Inr [''R:2,2 S:1,1'' \<mapsto>
                 [\<lparr>intraImg = Some ''cutout of intra'', extraImg = Some ''cutout of extra'',
                   starId = 523572575, pixelX = 110, pixelY = 215\<rparr>]]"
    by (simp add: example_defs donut_defs)
  from getDonutMap_one_entry_per_star [OF sensors stars, of "exampleProcessor singleCutout"
         "''g''" False] ret
  show ?thesis
    by simp
qed

text \<open>
  C4, as amended: for the star \<open>ii\<close> of a detector, in every donut map that
  \<open>getDonutMap\<close> returns. When the extra-focal image of the detector is \<open>None\<close> and
  the intra-focal image gives a cutout for the star (lines 421 to 439 leave \<open>imgDeblend\<close>
  not \<open>None\<close>), the detector has exactly one donut image of the star, with that cutout
  as its intra-focal image and no extra-focal image; the same with the roles exchanged.
  When neither image gives a cutout, the star has no donut image. The call returns under
  the conditions given for C3.
\<close>

theorem getDonutMap_keeps_single_role:
  assumes sensors: "distinct (map fst wfsImgMap)"
    and sensor: "(sensorName, defocal) \<in> set wfsImgMap"
    and nbr: "neighborStarMap sensorName = Some nbr"
    and stars: "distinct (map fst (SimobjID nbr))"
    and ii: "ii < length (SimobjID nbr)"
  shows "(\<forall>donutMap. getDonutMap sourProc neighborStarMap wfsImgMap aFilter doDeb = Inr donutMap \<longrightarrow>
            (\<forall>c. extraImg defocal = None
                 \<and> cutoutOf sourProc nbr aFilter doDeb sensorName (intraImg defocal) ii = Some c \<longrightarrow>
                 (\<exists>donutList e. donutMap sensorName = Some donutList
                    \<and> filter (\<lambda>d. starId d = fst (SimobjID nbr ! ii)) donutList = [e]
                    \<and> intraImg e = Some c \<and> extraImg e = None))
            \<and> (\<forall>c. intraImg defocal = None
                 \<and> cutoutOf sourProc nbr aFilter doDeb sensorName (extraImg defocal) ii = Some c \<longrightarrow>
                 (\<exists>donutList e. donutMap sensorName = Some donutList
                    \<and> filter (\<lambda>d. starId d = fst (SimobjID nbr ! ii)) donutList = [e]
                    \<and> intraImg e = None \<and> extraImg e = Some c))
            \<and> (cutoutOf sourProc nbr aFilter doDeb sensorName (intraImg defocal) ii = None
                 \<and> cutoutOf sourProc nbr aFilter doDeb sensorName (extraImg defocal) ii = None \<longrightarrow>
                 entryOf donutMap sensorName (fst (SimobjID nbr ! ii)) = None))
       \<and> ((\<forall>sensorName \<in> fst ` set wfsImgMap. \<exists>nbr. neighborStarMap sensorName = Some nbr
             \<and> (\<forall>configured ccdImg ii.
                   allStarPosX (getSingleTargetImage sourProc configured ccdImg nbr ii aFilter) \<noteq> []
                   \<and> allStarPosY (getSingleTargetImage sourProc configured ccdImg nbr ii aFilter)
                       \<noteq> [])) \<longrightarrow>
            (\<exists>donutMap. getDonutMap sourProc neighborStarMap wfsImgMap aFilter doDeb
                          = Inr donutMap))"
proof (intro conjI allI impI)
  fix donutMap c
  assume ret: "getDonutMap sourProc neighborStarMap wfsImgMap aFilter doDeb = Inr donutMap"
    and a: "extraImg defocal = None
            \<and> cutoutOf sourProc nbr aFilter doDeb sensorName (intraImg defocal) ii = Some c"
  then have c0: "cutoutOf sourProc nbr aFilter doDeb sensorName (intraImg defocal) ii = Some c"
    and c1: "cutoutOf sourProc nbr aFilter doDeb sensorName (extraImg defocal) ii = None"
    by (simp_all add: cutoutOf_def)
  from getDonutMap_entry [OF ret sensors sensor nbr stars ii]
  obtain e where e: "entryOf donutMap sensorName (fst (SimobjID nbr ! ii)) = Some e"
    and imgs: "intraImg e = Some c" "extraImg e = None"
    unfolding c0 c1 by auto
  from getDonutMap_single_entry [OF ret e] imgs
  show "\<exists>donutList e. donutMap sensorName = Some donutList
                    \<and> filter (\<lambda>d. starId d = fst (SimobjID nbr ! ii)) donutList = [e]
                    \<and> intraImg e = Some c \<and> extraImg e = None"
    by blast
next
  fix donutMap c
  assume ret: "getDonutMap sourProc neighborStarMap wfsImgMap aFilter doDeb = Inr donutMap"
    and a: "intraImg defocal = None
            \<and> cutoutOf sourProc nbr aFilter doDeb sensorName (extraImg defocal) ii = Some c"
  then have c0: "cutoutOf sourProc nbr aFilter doDeb sensorName (intraImg defocal) ii = None"
    and c1: "cutoutOf sourProc nbr aFilter doDeb sensorName (extraImg defocal) ii = Some c"
    by (simp_all add: cutoutOf_def)
  from getDonutMap_entry [OF ret sensors sensor nbr stars ii]
  obtain e where e: "entryOf donutMap sensorName (fst (SimobjID nbr ! ii)) = Some e"
    and imgs: "intraImg e = None" "extraImg e = Some c"
    unfolding c0 c1 by auto
  from getDonutMap_single_entry [OF ret e] imgs
  show "\<exists>donutList e. donutMap sensorName = Some donutList
                    \<and> filter (\<lambda>d. starId d = fst (SimobjID nbr ! ii)) donutList = [e]
                    \<and> intraImg e = None \<and> extraImg e = Some c"
    by blast
next
  fix donutMap
  assume ret: "getDonutMap sourProc neighborStarMap wfsImgMap aFilter doDeb = Inr donutMap"
    and a: "cutoutOf sourProc nbr aFilter doDeb sensorName (intraImg defocal) ii = None
            \<and> cutoutOf sourProc nbr aFilter doDeb sensorName (extraImg defocal) ii = None"
  then have c0: "cutoutOf sourProc nbr aFilter doDeb sensorName (intraImg defocal) ii = None"
    and c1: "cutoutOf sourProc nbr aFilter doDeb sensorName (extraImg defocal) ii = None"
    by simp_all
  from getDonutMap_entry [OF ret sensors sensor nbr stars ii]
  show "entryOf donutMap sensorName (fst (SimobjID nbr ! ii)) = None"
    unfolding c0 c1 by simp
next
  assume "\<forall>sensorName \<in> fst ` set wfsImgMap. \<exists>nbr. neighborStarMap sensorName = Some nbr
             \<and> (\<forall>configured ccdImg ii.
                   allStarPosX (getSingleTargetImage sourProc configured ccdImg nbr ii aFilter) \<noteq> []
                   \<and> allStarPosY (getSingleTargetImage sourProc configured ccdImg nbr ii aFilter)
                       \<noteq> [])"
  then show "\<exists>donutMap. getDonutMap sourProc neighborStarMap wfsImgMap aFilter doDeb = Inr donutMap"
    by (rule getDonutMap_returns)
qed


theorem getDonutMap_keeps_single_role_witness:
  "\<exists>donutMap donutList e.
     getDonutMap (exampleProcessor singleCutout) exampleNeighborStarMap intraOnly ''g'' True
       = Inr donutMap
     \<and> donutMap ''R:2,2 S:1,1'' = Some donutList
     \<and> filter (\<lambda>d. starId d = 523572575) donutList = [e]
     \<and> intraImg e = Some ''cutout of intra'' \<and> extraImg e = None"
proof -
  have sensors: "distinct (map fst intraOnly)"
    by (simp add: intraOnly_def)
  have sensor: "(''R:2,2 S:1,1'', \<lparr>intraImg = Some ''intra'', extraImg = None\<rparr>) \<in> set intraOnly"
    by (simp add: intraOnly_def)
  have nbr: "exampleNeighborStarMap ''R:2,2 S:1,1'' = Some exampleStars"
    by (simp add: exampleNeighborStarMap_def)
  have stars: "distinct (map fst (SimobjID exampleStars))"
    by (simp add: exampleStars_def)
  have ii: "0 < length (SimobjID exampleStars)"
    by (simp add: exampleStars_def)
  have ret: "getDonutMap (exampleProcessor singleCutout) exampleNeighborStarMap intraOnly ''g''
               True
             = Inr [''R:2,2 S:1,1'' \<mapsto>
                 [\<lparr>intraImg = Some ''cutout of intra'', extraImg = None,
                   starId = 523572575, pixelX = 110, pixelY = 215\<rparr>]]"
    by (simp add: example_defs donut_defs)
  from getDonutMap_keeps_single_role [where wfsImgMap = intraOnly
         and sensorName = "''R:2,2 S:1,1''"
         and defocal = "\<lparr>intraImg = Some ''intra'', extraImg = None\<rparr>"
         and neighborStarMap = exampleNeighborStarMap and nbr = exampleStars and ii = 0
         and sourProc = "exampleProcessor singleCutout" and aFilter = "''g''" and doDeb = True,
         OF sensors sensor nbr stars ii] ret
  show ?thesis
    by simp
qed

text \<open>
  The claim as worded fails: with the intra-focal image only, deblending enabled and
  three stars in the cutout, no donut image is created for the candidate star.
\<close>

theorem getDonutMap_single_role_dropped:
  "intraOnly = [(''R:2,2 S:1,1'', \<lparr>intraImg = Some ''intra'', extraImg = None\<rparr>)]
   \<and> map fst (SimobjID exampleStars) = [523572575]
   \<and> getDonutMap (exampleProcessor crowdedCutout) exampleNeighborStarMap intraOnly ''g'' True
       = Inr Map.empty"
  by (simp add: example_defs donut_defs)

section \<open>Proofs: insertData\<close>

lemma catalogTable_g: "catalogTable ''g'' = ''BrightStarCatalogG''"
  by code_simp

lemma formatF_examples:
  "formatF (1234567 / 10000000) = 123457 / 1000000"
  "formatF (21 / 10) = 21 / 10"
  "formatF (1 / 10) = 1 / 10"
  by (simp_all add: formatF_def round_def)

lemmas insert_defs = insertData_def checkExisting_def searchRaDecl_def magnitudeOf_def
  nextRowId_def rowsOf_def catalogTable_g formatF_examples

text \<open>
  C10: \<open>insertData\<close> is not idempotent. \<open>searchRaDecl\<close> looks a star up by the text of
  its coordinates with six digits after the decimal point, while the \<open>INSERT\<close> statement
  stores the coordinates themselves. A star at right ascension 0.1234567 is stored by the
  first call, is searched at 0.123457 by the second and not found, and is inserted again:
  the table has one row after the first call and two after the second.
\<close>

theorem insertData_repeated_adds_row:
  "insertData ''g'' fineStars emptyCatalog
     = (Inr (), [''BrightStarCatalogG'' \<mapsto>
          [\<lparr>rowId = 1, simobjid = 523572575, ra = 1234567 / 10000000, decl = 21 / 10, mag = 2,
            bright_star = True\<rparr>]])
   \<and> searchRaDecl (snd (insertData ''g'' fineStars emptyCatalog)) ''g'' (1234567 / 10000000)
        (21 / 10) = Inr []
   \<and> insertData ''g'' fineStars (snd (insertData ''g'' fineStars emptyCatalog))
     = (Inr (), [''BrightStarCatalogG'' \<mapsto>
          [\<lparr>rowId = 1, simobjid = 523572575, ra = 1234567 / 10000000, decl = 21 / 10, mag = 2,
            bright_star = True\<rparr>,
           \<lparr>rowId = 2, simobjid = 523572575, ra = 1234567 / 10000000, decl = 21 / 10, mag = 2,
            bright_star = True\<rparr>]])"
proof -
  have once: "insertData ''g'' fineStars emptyCatalog
     = (Inr (), [''BrightStarCatalogG'' \<mapsto>
          [\<lparr>rowId = 1, simobjid = 523572575, ra = 1234567 / 10000000, decl = 21 / 10, mag = 2,
            bright_star = True\<rparr>]])"
    by (simp add: insert_defs fineStars_def emptyCatalog_def)
  show ?thesis
    unfolding once by (simp add: insert_defs fineStars_def)
qed

text \<open>
  With the coordinates of the repository's test (0.1 and 2.1, which six digits hold), the
  second call finds the star and leaves the table as it is.
\<close>

lemma insertData_repeated_six_digits:
  "insertData ''g'' exampleStars (snd (insertData ''g'' exampleStars emptyCatalog))
   = (Inr (), snd (insertData ''g'' exampleStars emptyCatalog))
   \<and> map simobjid (rowsOf (snd (insertData ''g'' exampleStars emptyCatalog)) ''g'') = [523572575]"
proof -
  have once: "insertData ''g'' exampleStars emptyCatalog
     = (Inr (), [''BrightStarCatalogG'' \<mapsto>
          [\<lparr>rowId = 1, simobjid = 523572575, ra = 1 / 10, decl = 21 / 10, mag = 2,
            bright_star = True\<rparr>]])"
    by (simp add: insert_defs exampleStars_def emptyCatalog_def)
  show ?thesis
    unfolding once by (simp add: insert_defs exampleStars_def)
qed

end
